theory Spec2Isabelle
  imports Main "HOL-Library.AList"
begin

section \<open>JavaScript values\<close>

text \<open>
  The panel (\<^verbatim>\<open>BackendConfigurationPanel\<close> in \<^verbatim>\<open>src/i18n/index.ts\<close>) handles untyped
  documents (\<^verbatim>\<open>configuration: any\<close>) and objects that are updated under a computed key
  (\<^verbatim>\<open>{ ...model, [field]: value }\<close>). Both are modelled by one datatype of JSON
  values. An object is an association list in property order; its keys are assumed
  distinct and not integer-like, as JavaScript would reorder those. Numbers are the
  integers that JavaScript prints in decimal digits (those it holds exactly, up to
  \<^verbatim>\<open>2 ** 53\<close> in magnitude); fractions, and the exponent notation of large numbers, are
  not modelled. Strings are byte strings (UTF-8).
\<close>

datatype json =
    JNull
  | JBool bool
  | JNum int
  | JStr string
  | JArr "json list"
  | JObj "(string \<times> json) list"

text \<open>JavaScript truthiness, as used by \<^verbatim>\<open>x ? a : b\<close>, \<^verbatim>\<open>x || d\<close> and \<^verbatim>\<open>if (x)\<close>.\<close>

fun truthy :: "json \<Rightarrow> bool" where
  "truthy JNull = False"
| "truthy (JBool b) = b"
| "truthy (JNum n) = (n \<noteq> 0)"
| "truthy (JStr s) = (s \<noteq> [])"
| "truthy (JArr xs) = True"
| "truthy (JObj kvs) = True"

text \<open>
  An optional string (\<^verbatim>\<open>string | null | undefined\<close>) is truthy when it is present and
  not empty; \<^verbatim>\<open>x || d\<close> is \<open>or_default x d\<close>.
\<close>

fun truthy_str :: "string option \<Rightarrow> bool" where
  "truthy_str None = False"
| "truthy_str (Some s) = (s \<noteq> [])"

fun or_default :: "string option \<Rightarrow> string \<Rightarrow> string" where
  "or_default None d = d"
| "or_default (Some s) d = (if s \<noteq> [] then s else d)"

subsection \<open>\<^verbatim>\<open>String(n)\<close> and \<^verbatim>\<open>JSON.stringify\<close>\<close>

definition digit_char :: "nat \<Rightarrow> char" where
  "digit_char n = ''0123456789abcdef'' ! (n mod 16)"

function NatToString :: "nat \<Rightarrow> string" where
  "NatToString n = (if n < 10 then [digit_char n] else NatToString (n div 10) @ [digit_char (n mod 10)])"
  by pat_completeness auto
termination
  by (relation "measure id") auto

definition NumberToString :: "int \<Rightarrow> string" where
  "NumberToString i = (if i < 0 then CHR ''-'' # NatToString (nat (- i)) else NatToString (nat i))"

text \<open>
  \<^verbatim>\<open>QuoteJSONString\<close> of ECMAScript: the quote and the backslash are escaped, the
  control characters get their short or their \<^verbatim>\<open>\u00xx\<close> escape.
\<close>

definition backslash :: char where
  "backslash = CHR 0x5C"

definition dquote :: char where
  "dquote = CHR 0x22"

definition newline :: char where
  "newline = CHR 0x0A"

definition quote_char :: "char \<Rightarrow> string" where
  "quote_char c =
     (if c = dquote then [backslash, dquote]
      else if c = backslash then [backslash, backslash]
      else if c = CHR 0x08 then [backslash, CHR ''b'']
      else if c = CHR 0x09 then [backslash, CHR ''t'']
      else if c = CHR 0x0A then [backslash, CHR ''n'']
      else if c = CHR 0x0C then [backslash, CHR ''f'']
      else if c = CHR 0x0D then [backslash, CHR ''r'']
      else if (of_char c :: nat) < 32
        then [backslash, CHR ''u'', CHR ''0'', CHR ''0'',
              digit_char (of_char c div 16), digit_char (of_char c mod 16)]
      else [c])"

definition QuoteJSONString :: "string \<Rightarrow> string" where
  "QuoteJSONString s = dquote # concat (map quote_char s) @ [dquote]"

fun join :: "string \<Rightarrow> string list \<Rightarrow> string" where
  "join sep [] = []"
| "join sep [x] = x"
| "join sep (x # y # ys) = x @ sep @ join sep (y # ys)"

text \<open>
  \<^verbatim>\<open>SerializeJSONProperty\<close>, with the gap (the indentation unit) and the current
  indentation. An empty array or object has no line break inside.
\<close>

fun wrap :: "string \<Rightarrow> string \<Rightarrow> char \<Rightarrow> char \<Rightarrow> string list \<Rightarrow> string" where
  "wrap gap stepback opening closing partial =
     (if partial = [] then [opening, closing]
      else if gap = [] then opening # join '','' partial @ [closing]
      else opening # newline # (stepback @ gap) @
           join (CHR '','' # newline # (stepback @ gap)) partial @
           newline # stepback @ [closing])"

fun serialize :: "string \<Rightarrow> string \<Rightarrow> json \<Rightarrow> string" where
  "serialize gap indent JNull = ''null''"
| "serialize gap indent (JBool b) = (if b then ''true'' else ''false'')"
| "serialize gap indent (JNum n) = NumberToString n"
| "serialize gap indent (JStr s) = QuoteJSONString s"
| "serialize gap indent (JArr xs) =
     wrap gap indent CHR ''['' CHR '']'' (map (serialize gap (indent @ gap)) xs)"
| "serialize gap indent (JObj kvs) =
     wrap gap indent CHR ''{'' CHR ''}''
       (map (\<lambda>kv. QuoteJSONString (fst kv) @ '':'' @ (if gap = [] then [] else '' '') @
                   serialize gap (indent @ gap) (snd kv)) kvs)"

text \<open>\<^verbatim>\<open>JSON.stringify(value, null, space)\<close> for a numeric \<^verbatim>\<open>space\<close> (at most 10 blanks).\<close>

definition JSON_stringify :: "json \<Rightarrow> nat \<Rightarrow> string" where
  "JSON_stringify v space = serialize (replicate (min space 10) CHR '' '') [] v"

section \<open>The data model\<close>

text \<open>
  \<^verbatim>\<open>interface ModelConfig\<close>. \<^verbatim>\<open>updateModelConfig\<close> writes a property chosen at run time,
  so a model is an object: its properties in order, read with \<open>map_of\<close>.
\<close>

type_synonym ModelConfig = "(string \<times> json) list"

record Backend =
  id' :: string
  name :: string
  description :: string
  folder :: string
  requiresGPU :: bool
  gpuType :: string
  isAvailable :: bool
  binaryPath :: "string option"

record BackendOverride =
  backendId :: "string option"
  isOverridden :: bool
  timestamp :: "string option"

record ServiceStatus =
  isRunning :: bool
  port :: int
  pid :: "int option"
  currentBackendName :: "string option"

record ConfigurationInfo =
  availableBackends :: "Backend list"
  currentBackendOverride :: "BackendOverride option"
  configuration :: json
  configPath :: string
  performanceSettings :: json
  platform :: string
  architecture :: string
  serviceStatus :: "ServiceStatus option"
  models :: "ModelConfig list option"

text \<open>
  What a call of the control plane resolves to: \<^verbatim>\<open>{ success, error?, ... }\<close>, with the
  call's own data as payload.
\<close>

record 'a result =
  success :: bool
  error :: "string option"
  payload :: 'a

record RequiresRestart =
  required :: bool
  recommendation :: string

datatype phase = Idle | Saving | Restarting | Reconfiguring | Success | Error

record OperationStatus =
  type :: phase
  message :: string

text \<open>The component's state: one field for each \<^verbatim>\<open>useState\<close>.\<close>

record panel =
  configInfo :: "ConfigurationInfo option"
  loading :: bool
  error :: "string option"
  selectedBackend :: string
  actualBackend :: string
  showJsonEditor :: bool
  jsonConfig :: string
  jsonError :: "string option"
  modelConfigs :: "ModelConfig list"
  selectedModelId :: "string option"
  expandedSections :: "(string \<times> bool) list"
  operationStatus :: OperationStatus
  hasUnsavedChanges :: bool

definition initial :: panel where
  "initial = \<lparr>configInfo = None, loading = True, error = None, selectedBackend = ''auto'',
     actualBackend = [], showJsonEditor = False, jsonConfig = [], jsonError = None,
     modelConfigs = [], selectedModelId = None,
     expandedSections = [(''backends'', True), (''models'', True),
                         (''configuration'', False), (''advanced'', False)],
     operationStatus = \<lparr>type = Idle, message = []\<rparr>, hasUnsavedChanges = False\<rparr>"

definition isOperationInProgress :: "panel \<Rightarrow> bool" where
  "isOperationInProgress s \<longleftrightarrow>
     type (operationStatus s) = Saving \<or> type (operationStatus s) = Restarting \<or>
     type (operationStatus s) = Reconfiguring"

section \<open>Synchronous handlers\<close>

text \<open>\<^verbatim>\<open>model.name === modelName\<close>\<close>

definition has_name :: "string \<Rightarrow> ModelConfig \<Rightarrow> bool" where
  "has_name modelName model \<longleftrightarrow> map_of model ''name'' = Some (JStr modelName)"

text \<open>
  \<^verbatim>\<open>updateModelConfig\<close>: the functional update of \<^verbatim>\<open>modelConfigs\<close>, then
  \<^verbatim>\<open>setHasUnsavedChanges(true)\<close>. The spread with a computed key replaces the
  property where it stands, or appends it.
\<close>

definition updateModelConfig :: "string \<Rightarrow> string \<Rightarrow> json \<Rightarrow> panel \<Rightarrow> panel" where
  "updateModelConfig modelName field v s =
     s\<lparr>modelConfigs := map (\<lambda>model. if has_name modelName model
                                      then AList.update field v model else model)
                            (modelConfigs s),
       hasUnsavedChanges := True\<rparr>"

text \<open>
  \<^verbatim>\<open>handleJsonChange\<close>. \<^verbatim>\<open>JSON.parse\<close> is a parameter: \<open>parse text\<close> is the message of the
  \<^verbatim>\<open>SyntaxError\<close> it throws on \<open>text\<close>, or \<open>None\<close> when it returns.
\<close>

definition originalConfig :: "panel \<Rightarrow> string" where
  "originalConfig s =
     (case configInfo s of
        None \<Rightarrow> []
      | Some info \<Rightarrow> if truthy (configuration info)
                     then JSON_stringify (configuration info) 2 else [])"

definition handleJsonChange :: "(string \<Rightarrow> string option) \<Rightarrow> string \<Rightarrow> panel \<Rightarrow> panel" where
  "handleJsonChange parse v s =
     s\<lparr>jsonConfig := v,
       hasUnsavedChanges := (v \<noteq> originalConfig s),
       jsonError := (case parse v of None \<Rightarrow> None | Some m \<Rightarrow> Some m)\<rparr>"

section \<open>The control plane\<close>

text \<open>
  An awaited call either rejects (with an \<^verbatim>\<open>Error\<close> and its message, or with a value
  that is no \<^verbatim>\<open>Error\<close>) or resolves to a result, after a delay in milliseconds.
\<close>

datatype 'a reply = Rejected "string option" | Resolved "'a result"

record 'a response =
  delay :: nat
  outcome :: "'a reply"

text \<open>
  \<^verbatim>\<open>window.llamaSwap\<close>, when it is defined: the response of each method. Only
  \<^verbatim>\<open>getModelConfigurations\<close> is tested for existence by the code, so only it is optional.
  The two methods that share their name with a handler of the panel carry a prime.
\<close>

record remote =
  getConfigurationInfo :: "ConfigurationInfo response"
  getModelConfigurations :: "ModelConfig list option response option"
  setBackendOverride :: "unit response"
  restartWithOverrides :: "unit response"
  regenerateConfig :: "int response"
  saveConfigFromJson :: "RequiresRestart option response"
  saveConfigAndRestart :: "unit response"
  saveModelConfiguration' :: "unit response"
  saveAllModelConfigurations' :: "unit response"

datatype call =
    GetConfigurationInfo
  | GetModelConfigurations
  | SetBackendOverride "string option"
  | RestartWithOverrides
  | RegenerateConfig
  | SaveConfigFromJson string
  | SaveConfigAndRestart string
  | SaveModelConfiguration string ModelConfig
  | SaveAllModelConfigurations "ModelConfig list"

section \<open>Effects in time\<close>

text \<open>
  An asynchronous handler reads the state once, when it is invoked (its closure), and
  from then on only calls state setters, remote methods and \<^verbatim>\<open>setTimeout\<close>. It is
  modelled by the list of the statements it executes, in program order, each with the
  time in milliseconds at which it is executed. Every callback that the source hands to
  \<^verbatim>\<open>setTimeout\<close> is of the form \<^verbatim>\<open>() => setOperationStatus(st)\<close>, so
  \<open>SetTimeout st d\<close> stands for \<^verbatim>\<open>setTimeout(() => setOperationStatus(st), d)\<close>. The
  source has no \<^verbatim>\<open>clearTimeout\<close>: a timer that was set always fires.
\<close>

datatype action =
    SetConfigInfo ConfigurationInfo
  | SetLoading bool
  | SetError "string option"
  | SetSelectedBackend string
  | SetActualBackend string
  | SetJsonConfig string
  | SetModelConfigs "ModelConfig list"
  | SetOperationStatus OperationStatus
  | SetHasUnsavedChanges bool
  | SetTimeout OperationStatus nat
  | Call call

type_synonym event = "nat \<times> action"

fun perform :: "action \<Rightarrow> panel \<Rightarrow> panel" where
  "perform (SetConfigInfo i) s = s\<lparr>configInfo := Some i\<rparr>"
| "perform (SetLoading b) s = s\<lparr>loading := b\<rparr>"
| "perform (SetError e) s = s\<lparr>panel.error := e\<rparr>"
| "perform (SetSelectedBackend b) s = s\<lparr>selectedBackend := b\<rparr>"
| "perform (SetActualBackend b) s = s\<lparr>actualBackend := b\<rparr>"
| "perform (SetJsonConfig t) s = s\<lparr>jsonConfig := t\<rparr>"
| "perform (SetModelConfigs ms) s = s\<lparr>modelConfigs := ms\<rparr>"
| "perform (SetOperationStatus st) s = s\<lparr>operationStatus := st\<rparr>"
| "perform (SetHasUnsavedChanges b) s = s\<lparr>hasUnsavedChanges := b\<rparr>"
| "perform (SetTimeout st d) s = s"
| "perform (Call c) s = s"

text \<open>
  When an executed statement takes effect: at once, but for a timer, whose callback runs
  \<open>d\<close> later. The effects in the order in which they happen are sorted by time, and
  stay in program order at equal times (\<open>sort_key\<close> is stable).
\<close>

fun occurs :: "event \<Rightarrow> event" where
  "occurs (t, SetTimeout st d) = (t + d, SetOperationStatus st)"
| "occurs (t, a) = (t, a)"

definition timeline :: "event list \<Rightarrow> event list" where
  "timeline evs = sort_key fst (map occurs evs)"

definition run :: "event list \<Rightarrow> panel \<Rightarrow> panel" where
  "run evs s = fold perform (map snd (timeline evs)) s"

text \<open>The state at time \<open>T\<close>: the effects up to \<open>T\<close> have happened.\<close>

definition state_at :: "nat \<Rightarrow> event list \<Rightarrow> panel \<Rightarrow> panel" where
  "state_at T evs s = fold perform (map snd (filter (\<lambda>e. fst e \<le> T) (timeline evs))) s"

fun call_of :: "action \<Rightarrow> call option" where
  "call_of (Call c) = Some c"
| "call_of _ = None"

text \<open>The remote calls a handler issues, in program order.\<close>

definition calls :: "event list \<Rightarrow> call list" where
  "calls evs = List.map_filter (call_of \<circ> snd) evs"

text \<open>
  \<^verbatim>\<open>await llamaSwap.method(...)\<close> at time \<open>t\<close>: the call that is issued, the time at
  which the handler goes on, and what it goes on with. When \<^verbatim>\<open>window.llamaSwap\<close> is
  undefined the property access throws a \<^verbatim>\<open>TypeError\<close> at once (V8's message).
\<close>

definition TypeError_undefined :: "string \<Rightarrow> string" where
  "TypeError_undefined m = ''Cannot read properties of undefined (reading '' @ [CHR 0x27] @ m @ [CHR 0x27] @ '')''"

fun await :: "remote option \<Rightarrow> (remote \<Rightarrow> 'a response) \<Rightarrow> string \<Rightarrow> call \<Rightarrow> nat
              \<Rightarrow> event list \<times> nat \<times> 'a reply" where
  "await None method m c t = ([], t, Rejected (Some (TypeError_undefined m)))"
| "await (Some r) method m c t = ([(t, Call c)], t + delay (method r), outcome (method r))"

text \<open>\<^verbatim>\<open>error instanceof Error ? error.message : d\<close>\<close>

fun caught :: "string option \<Rightarrow> string \<Rightarrow> string" where
  "caught None d = d"
| "caught (Some m) d = m"

section \<open>Loading\<close>

text \<open>
  Both loaders give their effects and the time at which their promise settles. Neither
  rejects: each catches what is thrown inside it.
\<close>

definition loadModelConfigurations :: "remote option \<Rightarrow> nat \<Rightarrow> event list \<times> nat" where
  "loadModelConfigurations llamaSwap t =
     (case llamaSwap of
        None \<Rightarrow> ([], t)
      | Some r \<Rightarrow>
          (case getModelConfigurations r of
             None \<Rightarrow> ([], t)
           | Some resp \<Rightarrow>
               ((t, Call GetModelConfigurations) #
                (case outcome resp of
                   Rejected e \<Rightarrow> []
                 | Resolved result \<Rightarrow>
                     (if success result
                      then (case payload result of
                              None \<Rightarrow> []
                            | Some ms \<Rightarrow> [(t + delay resp, SetModelConfigs ms)])
                      else [])),
                t + delay resp)))"

definition loadConfigurationInfo :: "remote option \<Rightarrow> nat \<Rightarrow> event list \<times> nat" where
  "loadConfigurationInfo llamaSwap t =
     (case llamaSwap of
        None \<Rightarrow>
          ([(t, SetLoading True), (t, SetError None),
            (t, SetError (Some ''LlamaSwap service not available'')),
            (t, SetLoading False)], t)
      | Some r \<Rightarrow>
          (let t1 = t + delay (getConfigurationInfo r) in
           case outcome (getConfigurationInfo r) of
             Rejected e \<Rightarrow>
               ([(t, SetLoading True), (t, SetError None), (t, Call GetConfigurationInfo),
                 (t1, SetError (Some (caught e ''Failed to load configuration''))),
                 (t1, SetLoading False)], t1)
           | Resolved result \<Rightarrow>
               if success result then
                 (let info = payload result;
                      (ms, t2) = loadModelConfigurations llamaSwap t1
                  in ([(t, SetLoading True), (t, SetError None), (t, Call GetConfigurationInfo),
                       (t1, SetConfigInfo info),
                       (t1, SetSelectedBackend
                              (or_default (Option.bind (currentBackendOverride info) backendId)
                                 ''auto''))] @
                      (case serviceStatus info of
                         None \<Rightarrow> []
                       | Some st \<Rightarrow>
                           (case currentBackendName st of
                              None \<Rightarrow> []
                            | Some b \<Rightarrow> if b \<noteq> [] then [(t1, SetActualBackend b)] else [])) @
                      (if truthy (configuration info)
                       then [(t1, SetJsonConfig (JSON_stringify (configuration info) 2))]
                       else []) @
                      ms @ [(t2, SetLoading False)], t2))
               else
                 ([(t, SetLoading True), (t, SetError None), (t, Call GetConfigurationInfo),
                   (t1, SetError (Some (or_default (result.error result)
                                          ''Failed to load configuration''))),
                   (t1, SetLoading False)], t1)))"

text \<open>
  What the two reads of a load deliver: whether \<^verbatim>\<open>getConfigurationInfo\<close> resolves with
  \<^verbatim>\<open>success\<close>, and the models that \<^verbatim>\<open>getModelConfigurations\<close> delivers
  (\<^verbatim>\<open>result.success && result.models\<close>), if any.
\<close>

definition info_read_ok :: "remote option \<Rightarrow> bool" where
  "info_read_ok ls =
     (case ls of
        None \<Rightarrow> False
      | Some r \<Rightarrow> (case outcome (getConfigurationInfo r) of
                     Rejected e \<Rightarrow> False
                   | Resolved result \<Rightarrow> success result))"

definition models_read :: "remote option \<Rightarrow> ModelConfig list option" where
  "models_read ls =
     (case ls of
        None \<Rightarrow> None
      | Some r \<Rightarrow> (case getModelConfigurations r of
                     None \<Rightarrow> None
                   | Some resp \<Rightarrow> (case outcome resp of
                                     Rejected e \<Rightarrow> None
                                   | Resolved result \<Rightarrow>
                                       if success result then payload result else None)))"

section \<open>The operations\<close>

text \<open>
  \<^verbatim>\<open>setOperationStatus({ type, message })\<close>, at once and from a timer.
\<close>

definition status :: "phase \<Rightarrow> string \<Rightarrow> action" where
  "status ph m = SetOperationStatus \<lparr>type = ph, message = m\<rparr>"

definition timer :: "phase \<Rightarrow> string \<Rightarrow> nat \<Rightarrow> action" where
  "timer ph m d = SetTimeout \<lparr>type = ph, message = m\<rparr> d"

text \<open>The catch block of a handler: the error status, and the timer that clears it.\<close>

definition failed :: "nat \<Rightarrow> nat \<Rightarrow> string \<Rightarrow> event list" where
  "failed clear t m = [(t, status Error m), (t, timer Idle [] clear)]"

text \<open>The UTF-8 bytes of U+2705, and of U+26A0 U+FE0F.\<close>

definition check_mark :: string where
  "check_mark = [CHR 0xE2, CHR 0x9C, CHR 0x85]"

definition warning_sign :: string where
  "warning_sign = [CHR 0xE2, CHR 0x9A, CHR 0xA0, CHR 0xEF, CHR 0xB8, CHR 0x8F]"

definition backend_label :: "string \<Rightarrow> string \<Rightarrow> string" where
  "backend_label auto bid = (if bid = ''auto'' then auto else bid)"

definition handleBackendChange :: "remote option \<Rightarrow> string \<Rightarrow> nat \<Rightarrow> event list" where
  "handleBackendChange llamaSwap bid t0 =
     (let (c1, t1, r1) = await llamaSwap setBackendOverride ''setBackendOverride''
                           (SetBackendOverride (if bid = ''auto'' then None else Some bid)) t0
      in (t0, status Saving ''Updating backend selection...'') # c1 @
         (case r1 of
            Rejected e \<Rightarrow> failed 5000 t1 (caught e ''Failed to change backend'')
          | Resolved result \<Rightarrow>
              if success result then
                (let (c2, t2, r2) = await llamaSwap restartWithOverrides ''restartWithOverrides''
                                      RestartWithOverrides t1
                 in [(t1, SetSelectedBackend bid),
                     (t1, status Restarting ''Stopping service...''),
                     (t1, timer Restarting ''Applying backend changes...'' 1000),
                     (t1, timer Restarting
                        (''Starting service with '' @ backend_label ''auto-detect'' bid @
                         '' backend...'') 3000),
                     (t1, timer Restarting
                        ''Initializing service... (this may take a moment)'' 5000),
                     (t1, timer Restarting
                        ''Service startup in progress... (almost ready)'' 10000)] @ c2 @
                    (case r2 of
                       Rejected e \<Rightarrow> failed 5000 t2 (caught e ''Failed to change backend'')
                     | Resolved restartResult \<Rightarrow>
                         if success restartResult then
                           (let (l, t3) = loadConfigurationInfo llamaSwap t2
                            in (t2, status Success
                                  (check_mark @ '' Backend changed to '' @
                                   backend_label ''Auto-detect'' bid @
                                   '' and service restarted!'')) #
                               l @ [(t3, timer Idle [] 3000)])
                         else failed 5000 t2
                                (or_default (result.error restartResult)
                                   ''Failed to restart service with new backend'')))
              else failed 5000 t1 (or_default (result.error result) ''Failed to set backend'')))"

definition handleReconfigure :: "remote option \<Rightarrow> nat \<Rightarrow> event list" where
  "handleReconfigure llamaSwap t0 =
     (let (c1, t1, r1) = await llamaSwap regenerateConfig ''regenerateConfig'' RegenerateConfig t0
      in (t0, status Reconfiguring ''Regenerating configuration...'') # c1 @
         (case r1 of
            Rejected e \<Rightarrow> failed 3000 t1 (caught e ''Failed to reconfigure'')
          | Resolved result \<Rightarrow>
              if success result then
                (let (l, t2) = loadConfigurationInfo llamaSwap t1
                 in (t1, status Success
                       (''Configuration regenerated with '' @ NumberToString (payload result) @
                        '' models'')) #
                    l @ [(t2, timer Idle [] 2000)])
              else failed 3000 t1 (or_default (result.error result) ''Failed to reconfigure'')))"

definition handleRestartWithOverrides :: "remote option \<Rightarrow> nat \<Rightarrow> event list" where
  "handleRestartWithOverrides llamaSwap t0 =
     (let (c1, t1, r1) = await llamaSwap restartWithOverrides ''restartWithOverrides''
                           RestartWithOverrides t0
      in [(t0, status Restarting ''Stopping service...''),
          (t0, timer Restarting ''Applying configuration...'' 1000),
          (t0, timer Restarting ''Starting service with new settings...'' 3000)] @ c1 @
         (case r1 of
            Rejected e \<Rightarrow> failed 3000 t1 (caught e ''Failed to restart service'')
          | Resolved result \<Rightarrow>
              if success result then
                (let (l, t2) = loadConfigurationInfo llamaSwap t1
                 in (t1, status Success ''Service restarted successfully!'') #
                    l @ [(t2, timer Idle [] 2000)])
              else failed 3000 t1 (or_default (result.error result) ''Failed to restart service'')))"

text \<open>
  The four save handlers read \<^verbatim>\<open>jsonError\<close>, \<^verbatim>\<open>jsonConfig\<close> and \<^verbatim>\<open>modelConfigs\<close> from
  the state \<open>s\<close> in which they are invoked.
\<close>

definition saveConfiguration :: "remote option \<Rightarrow> panel \<Rightarrow> nat \<Rightarrow> event list" where
  "saveConfiguration llamaSwap s t0 =
     (if truthy_str (jsonError s)
      then [(t0, status Error ''Cannot save configuration with JSON errors'')]
      else
        (let (c1, t1, r1) = await llamaSwap saveConfigFromJson ''saveConfigFromJson''
                              (SaveConfigFromJson (jsonConfig s)) t0
         in (t0, status Saving ''Saving configuration...'') # c1 @
            (case r1 of
               Rejected e \<Rightarrow> failed 5000 t1 (caught e ''Failed to save configuration'')
             | Resolved result \<Rightarrow>
                 if success result then
                   (let restart = (case payload result of None \<Rightarrow> False | Some rr \<Rightarrow> required rr);
                        (l, t2) = loadConfigurationInfo llamaSwap t1
                    in [(t1, status Success
                           (check_mark @ '' Configuration saved successfully!'' @
                            (case payload result of
                               None \<Rightarrow> []
                             | Some rr \<Rightarrow> if required rr
                                          then '' '' @ warning_sign @ '' '' @ recommendation rr
                                          else []))),
                        (t1, SetHasUnsavedChanges False)] @
                       l @ [(t2, timer Idle [] (if restart then 5000 else 2000))])
                 else failed 5000 t1
                        (or_default (result.error result) ''Failed to save configuration''))))"

definition saveConfigurationAndRestart :: "remote option \<Rightarrow> panel \<Rightarrow> nat \<Rightarrow> event list" where
  "saveConfigurationAndRestart llamaSwap s t0 =
     (if truthy_str (jsonError s)
      then [(t0, status Error ''Cannot save configuration with JSON errors'')]
      else
        (let (c1, t1, r1) = await llamaSwap saveConfigAndRestart ''saveConfigAndRestart''
                              (SaveConfigAndRestart (jsonConfig s)) t0
         in [(t0, status Saving ''Saving configuration...''),
             (t0, timer Restarting ''Configuration saved, restarting service...'' 1000),
             (t0, timer Restarting ''Applying new configuration...'' 3000)] @ c1 @
            (case r1 of
               Rejected e \<Rightarrow>
                 failed 5000 t1 (caught e ''Failed to save configuration and restart'')
             | Resolved result \<Rightarrow>
                 if success result then
                   (let (l, t2) = loadConfigurationInfo llamaSwap t1
                    in [(t1, status Success
                           (check_mark @
                            '' Configuration saved and service restarted successfully!'')),
                        (t1, SetHasUnsavedChanges False)] @
                       l @ [(t2, timer Idle [] 3000)])
                 else failed 5000 t1
                        (or_default (result.error result)
                           ''Failed to save configuration and restart''))))"

definition saveModelConfiguration :: "remote option \<Rightarrow> panel \<Rightarrow> string \<Rightarrow> nat \<Rightarrow> event list" where
  "saveModelConfiguration llamaSwap s modelName t0 =
     (t0, status Saving (''Saving configuration for '' @ modelName @ ''...'')) #
     (case find (has_name modelName) (modelConfigs s) of
        None \<Rightarrow> failed 3000 t0 ''Model configuration not found''
      | Some modelConfig \<Rightarrow>
          (let (c1, t1, r1) = await llamaSwap saveModelConfiguration' ''saveModelConfiguration''
                                (SaveModelConfiguration modelName modelConfig) t0
           in c1 @
              (case r1 of
                 Rejected e \<Rightarrow> failed 3000 t1 (caught e ''Failed to save model configuration'')
               | Resolved result \<Rightarrow>
                   if success result then
                     [(t1, status Success (check_mark @ '' Configuration saved for '' @ modelName)),
                      (t1, SetHasUnsavedChanges False),
                      (t1, timer Idle [] 2000)]
                   else failed 3000 t1
                          (or_default (result.error result)
                             ''Failed to save model configuration''))))"

definition saveAllModelConfigurations :: "remote option \<Rightarrow> panel \<Rightarrow> nat \<Rightarrow> event list" where
  "saveAllModelConfigurations llamaSwap s t0 =
     (let (c1, t1, r1) = await llamaSwap saveAllModelConfigurations' ''saveAllModelConfigurations''
                           (SaveAllModelConfigurations (modelConfigs s)) t0
      in (t0, status Saving ''Saving all model configurations...'') # c1 @
         (case r1 of
            Rejected e \<Rightarrow> failed 3000 t1 (caught e ''Failed to save model configurations'')
          | Resolved result \<Rightarrow>
              if success result then
                [(t1, status Success
                        (check_mark @ '' All model configurations saved successfully!'')),
                 (t1, SetHasUnsavedChanges False),
                 (t1, timer Idle [] 2000)]
              else failed 3000 t1
                     (or_default (result.error result) ''Failed to save model configurations'')))"

section \<open>The controls\<close>

text \<open>
  The intents reach the handlers through buttons. A button whose \<^verbatim>\<open>disabled\<close> attribute
  holds raises no click, and while \<^verbatim>\<open>loading\<close> or \<^verbatim>\<open>error\<close> is set the panel renders
  none of these buttons. (Whether the section of a button is expanded is not
  modelled: a click presupposes that the button is on the screen.)
\<close>

datatype intent =
    ChangeBackend string
  | Reconfigure
  | RestartWithOverrides_intent
  | SaveConfig
  | SaveConfigAndRestart_intent
  | SaveModel string
  | SaveAllModels

fun disabled :: "intent \<Rightarrow> panel \<Rightarrow> bool" where
  "disabled (ChangeBackend b) s = isOperationInProgress s"
| "disabled Reconfigure s = isOperationInProgress s"
| "disabled RestartWithOverrides_intent s = isOperationInProgress s"
| "disabled SaveConfig s =
     (isOperationInProgress s \<or> truthy_str (jsonError s) \<or> \<not> hasUnsavedChanges s)"
| "disabled SaveConfigAndRestart_intent s =
     (isOperationInProgress s \<or> truthy_str (jsonError s) \<or> \<not> hasUnsavedChanges s)"
| "disabled (SaveModel n) s = isOperationInProgress s"
| "disabled SaveAllModels s = (isOperationInProgress s \<or> \<not> hasUnsavedChanges s)"

fun handler :: "remote option \<Rightarrow> intent \<Rightarrow> panel \<Rightarrow> nat \<Rightarrow> event list" where
  "handler llamaSwap (ChangeBackend b) s t = handleBackendChange llamaSwap b t"
| "handler llamaSwap Reconfigure s t = handleReconfigure llamaSwap t"
| "handler llamaSwap RestartWithOverrides_intent s t = handleRestartWithOverrides llamaSwap t"
| "handler llamaSwap SaveConfig s t = saveConfiguration llamaSwap s t"
| "handler llamaSwap SaveConfigAndRestart_intent s t = saveConfigurationAndRestart llamaSwap s t"
| "handler llamaSwap (SaveModel n) s t = saveModelConfiguration llamaSwap s n t"
| "handler llamaSwap SaveAllModels s t = saveAllModelConfigurations llamaSwap s t"

definition click :: "remote option \<Rightarrow> intent \<Rightarrow> panel \<Rightarrow> nat \<Rightarrow> event list" where
  "click llamaSwap i s t =
     (if loading s \<or> truthy_str (panel.error s) \<or> disabled i s then []
      else handler llamaSwap i s t)"

section \<open>Status changes\<close>

text \<open>
  The status changes of a run, each with the time at which it takes effect: those the
  handler makes itself and those its timers make.
\<close>

fun change_of :: "event \<Rightarrow> (nat \<times> OperationStatus) option" where
  "change_of (t, SetOperationStatus st) = Some (t, st)"
| "change_of (t, SetTimeout st d) = Some (t + d, st)"
| "change_of (t, a) = None"

definition status_changes :: "event list \<Rightarrow> (nat \<times> OperationStatus) list" where
  "status_changes evs = List.map_filter change_of evs"

fun set_status :: "event \<Rightarrow> (nat \<times> OperationStatus) option" where
  "set_status (t, SetOperationStatus st) = Some (t, st)"
| "set_status (t, a) = None"

text \<open>
  The status changes of \<^verbatim>\<open>handleBackendChange\<close> once the override is set: the first
  progress message and the four that its timers bring; and the message of its success.
\<close>

definition backend_progress :: "string \<Rightarrow> nat \<Rightarrow> (nat \<times> OperationStatus) list" where
  "backend_progress bid t1 =
     [(t1, \<lparr>type = Restarting, message = ''Stopping service...''\<rparr>),
      (t1 + 1000, \<lparr>type = Restarting, message = ''Applying backend changes...''\<rparr>),
      (t1 + 3000, \<lparr>type = Restarting,
          message = ''Starting service with '' @ backend_label ''auto-detect'' bid @ '' backend...''\<rparr>),
      (t1 + 5000, \<lparr>type = Restarting,
          message = ''Initializing service... (this may take a moment)''\<rparr>),
      (t1 + 10000, \<lparr>type = Restarting,
          message = ''Service startup in progress... (almost ready)''\<rparr>)]"

definition changed_message :: "string \<Rightarrow> string" where
  "changed_message bid =
     check_mark @ '' Backend changed to '' @ backend_label ''Auto-detect'' bid @
     '' and service restarted!''"

section \<open>Example data\<close>

definition ok :: "'a \<Rightarrow> nat \<Rightarrow> 'a response" where
  "ok x d = \<lparr>delay = d, outcome = Resolved \<lparr>success = True, error = None, payload = x\<rparr>\<rparr>"

definition refused :: "'a \<Rightarrow> string \<Rightarrow> nat \<Rightarrow> 'a response" where
  "refused x m d =
     \<lparr>delay = d, outcome = Resolved \<lparr>success = False, error = Some m, payload = x\<rparr>\<rparr>"

definition model_m1 :: ModelConfig where
  "model_m1 = [(''name'', JStr ''m1''), (''path'', JStr ''/models/m1.gguf''),
     (''port'', JNum 9001), (''isEmbedding'', JBool False), (''gpuLayers'', JNum 20),
     (''status'', JStr ''available'')]"

definition model_m2 :: ModelConfig where
  "model_m2 = [(''name'', JStr ''m2''), (''path'', JStr ''/models/m2.gguf''),
     (''port'', JNum 9002), (''isEmbedding'', JBool True), (''gpuLayers'', JNum 0),
     (''status'', JStr ''available'')]"

definition document :: json where
  "document = JObj [(''a'', JNum 1)]"

definition two_backends :: ConfigurationInfo where
  "two_backends =
     \<lparr>availableBackends =
        [\<lparr>id' = ''cpu'', name = ''CPU'', description = ''CPU only'', folder = ''cpu'',
           requiresGPU = False, gpuType = ''none'', isAvailable = True, binaryPath = None\<rparr>,
         \<lparr>id' = ''cuda'', name = ''CUDA'', description = ''NVIDIA GPU'', folder = ''cuda'',
           requiresGPU = True, gpuType = ''nvidia'', isAvailable = True, binaryPath = None\<rparr>],
      currentBackendOverride = None, configuration = document, configPath = ''/config.yaml'',
      performanceSettings = JNull, platform = ''linux'', architecture = ''x64'',
      serviceStatus = Some \<lparr>isRunning = True, port = 8080, pid = None,
                              currentBackendName = Some ''cpu''\<rparr>,
      models = None\<rparr>"

text \<open>A control plane on which every call succeeds; the restart takes half a second.\<close>

definition llama :: remote where
  "llama =
     \<lparr>getConfigurationInfo = ok two_backends 20,
      getModelConfigurations = Some (ok (Some [model_m1, model_m2]) 10),
      setBackendOverride = ok () 50, restartWithOverrides = ok () 500,
      regenerateConfig = ok 2 100, saveConfigFromJson = ok None 100,
      saveConfigAndRestart = ok () 700, saveModelConfiguration' = ok () 30,
      saveAllModelConfigurations' = ok () 40\<rparr>"

text \<open>The panel after its first load from \<open>llama\<close>.\<close>

definition loaded :: panel where
  "loaded = initial\<lparr>configInfo := Some two_backends, loading := False,
     actualBackend := ''cpu'', jsonConfig := JSON_stringify document 2,
     modelConfigs := [model_m1, model_m2]\<rparr>"

text \<open>The same panel while a reconfiguration is in flight.\<close>

definition busy :: panel where
  "busy = loaded\<lparr>operationStatus :=
            \<lparr>type = Reconfiguring, message = ''Regenerating configuration...''\<rparr>\<rparr>"

text \<open>
  \<^verbatim>\<open>JSON.parse\<close> on the texts of the examples: it throws on an opening brace alone and
  returns on the others. (Engines word the message differently; below, the message
  matters only in that it is not empty.)
\<close>

definition parse_example :: "string \<Rightarrow> string option" where
  "parse_example text = (if text = ''{'' then Some ''Unexpected end of JSON input'' else None)"

text \<open>Control planes that refuse the override, refuse the restart, or lose the model read.\<close>

definition set_down :: remote where
  "set_down = llama\<lparr>setBackendOverride := refused () ''unknown backend'' 50\<rparr>"

definition restart_down :: remote where
  "restart_down = llama\<lparr>restartWithOverrides := refused () ''port 8080 in use'' 500\<rparr>"

definition models_down :: remote where
  "models_down = llama\<lparr>getModelConfigurations :=
                    Some \<lparr>delay = 10, outcome = Rejected (Some ''connection lost'')\<rparr>\<rparr>"

text \<open>The loaded panel after an edit of model \<open>m2\<close>, and after an opening brace was typed
  into the JSON editor.\<close>

definition m2_edited :: panel where
  "m2_edited = updateModelConfig ''m2'' ''gpuLayers'' (JNum 35) loaded"

definition brace_typed :: panel where
  "brace_typed = handleJsonChange parse_example ''{'' loaded"

text \<open>
  A control plane that has no configuration document to show (\<^verbatim>\<open>configuration: null\<close>),
  and the panel after its first load from it and one move of a slider of model \<open>m1\<close>.
\<close>

definition no_document :: ConfigurationInfo where
  "no_document = two_backends\<lparr>configuration := JNull\<rparr>"

definition bare :: remote where
  "bare = llama\<lparr>getConfigurationInfo := ok no_document 20\<rparr>"

definition slider_moved :: panel where
  "slider_moved = updateModelConfig ''m1'' ''gpuLayers'' (JNum 35)
                    (run (fst (loadConfigurationInfo (Some bare) 0)) initial)"

text \<open>
  Two changes of the backend, on a control plane that takes one second to set the
  override and three and a half to restart: the first at 0, the second at 10500, in the
  state that the first has brought about by then.
\<close>

definition slow_restart :: remote where
  "slow_restart = llama\<lparr>setBackendOverride := ok () 1000, restartWithOverrides := ok () 3500\<rparr>"

definition earlier_change :: "event list" where
  "earlier_change = click (Some slow_restart) (ChangeBackend ''cuda'') loaded 0"

definition later_change :: "event list" where
  "later_change = click (Some slow_restart) (ChangeBackend ''cpu'')
                    (state_at 10500 earlier_change loaded) 10500"

text \<open>
  Three clicks in a row, on a control plane whose scan for models takes five seconds:
  a model is saved, a reconfiguration is started one second later, and a restart is asked
  for another second and a half later. Each click meets the state that the earlier ones
  have brought about by then.
\<close>

definition slow_scan :: remote where
  "slow_scan = llama\<lparr>regenerateConfig := ok 2 5000\<rparr>"

definition first_click :: "event list" where
  "first_click = click (Some slow_scan) (SaveModel ''m1'') loaded 0"

definition second_click :: "event list" where
  "second_click = click (Some slow_scan) Reconfigure (state_at 1000 first_click loaded) 1000"

definition third_click :: "event list" where
  "third_click = click (Some slow_scan) RestartWithOverrides_intent
                   (state_at 2500 (first_click @ second_click) loaded) 2500"

section \<open>Auxiliary facts\<close>

subsection \<open>Calls and runs\<close>

lemmas handler_unfold = run_def timeline_def status_def timer_def failed_def

lemma calls_Nil: "calls [] = []"
  by (simp add: calls_def List.map_filter_simps)

lemma calls_Cons:
  "calls (e # es) = (case call_of (snd e) of None \<Rightarrow> calls es | Some c \<Rightarrow> c # calls es)"
  by (simp add: calls_def List.map_filter_simps split: option.splits)

lemma calls_append: "calls (xs @ ys) = calls xs @ calls ys"
  by (simp add: calls_def map_filter_def)

lemmas calls_unfold = calls_Nil calls_Cons calls_append status_def timer_def failed_def


subsection \<open>The status at a time\<close>

text \<open>
  The status of the panel after a run is the last status change of the run; sorting the
  effects by time keeps the status changes in their order.
\<close>

lemma opstatus_fold:
  "operationStatus (fold perform (map snd es) s) = last (operationStatus s # map snd (List.map_filter set_status es))"
proof (induction es arbitrary: s)
  case Nil
  then show ?case by (simp add: List.map_filter_simps)
next
  case (Cons e es)
  obtain t a where e: "e = (t, a)" by (cases e)
  show ?case
    by (cases a) (simp_all add: e Cons List.map_filter_simps)
qed

lemma set_status_fst: "set_status e = Some c \<Longrightarrow> fst c = fst e"
  by (cases e rule: set_status.cases) auto

lemma set_status_set:
  "c \<in> set (List.map_filter set_status es) \<Longrightarrow> \<exists>e \<in> set es. fst e = fst c"
  by (induction es) (auto simp: List.map_filter_simps dest: set_status_fst split: option.splits)

lemma set_status_insort:
  "sorted (map fst ys) \<Longrightarrow>
   List.map_filter set_status (insort_key fst x ys) =
     (case set_status x of None \<Rightarrow> List.map_filter set_status ys
      | Some c \<Rightarrow> insort_key fst c (List.map_filter set_status ys))"
proof (induction ys)
  case Nil
  then show ?case by (simp add: List.map_filter_simps split: option.splits)
next
  case (Cons y ys)
  show ?case
  proof (cases "fst x \<le> fst y")
    case True
    have "insort_key fst c (List.map_filter set_status (y # ys)) = c # List.map_filter set_status (y # ys)"
      if "set_status x = Some c" for c
    proof (rule insort_is_Cons)
      show "\<forall>c' \<in> set (List.map_filter set_status (y # ys)). fst c \<le> fst c'"
      proof
        fix c' assume "c' \<in> set (List.map_filter set_status (y # ys))"
        then obtain e where "e \<in> set (y # ys)" "fst e = fst c'"
          using set_status_set by blast
        moreover have "fst y \<le> fst e" using \<open>e \<in> set (y # ys)\<close> Cons.prems by auto
        ultimately show "fst c \<le> fst c'" using True set_status_fst[OF that] by simp
      qed
    qed
    then show ?thesis using True
      by (simp add: List.map_filter_simps split: option.splits)
  next
    case False
    have IH: "List.map_filter set_status (insort_key fst x ys) =
     (case set_status x of None \<Rightarrow> List.map_filter set_status ys
      | Some c \<Rightarrow> insort_key fst c (List.map_filter set_status ys))"
      using Cons by simp
    show ?thesis
    proof (cases "set_status x")
      case None
      then show ?thesis using False by (simp add: List.map_filter_simps IH split: option.splits)
    next
      case (Some c)
      have "\<not> fst c \<le> fst d" if "set_status y = Some d" for d
        using False set_status_fst[OF Some] set_status_fst[OF that] by simp
      then show ?thesis using False Some
        by (simp add: List.map_filter_simps IH split: option.splits)
    qed
  qed
qed

lemma set_status_sort:
  "List.map_filter set_status (sort_key fst es) = sort_key fst (List.map_filter set_status es)"
proof (induction es)
  case Nil
  then show ?case by (simp add: List.map_filter_simps)
next
  case (Cons e es)
  have "sorted (map fst (sort_key fst es))" by simp
  then show ?case
    by (simp add: set_status_insort Cons List.map_filter_simps split: option.splits)
qed

lemma set_status_filter:
  "List.map_filter set_status (filter (\<lambda>e. fst e \<le> T) es)
     = filter (\<lambda>c. fst c \<le> T) (List.map_filter set_status es)"
  by (induction es) (auto simp: List.map_filter_simps dest: set_status_fst split: option.splits)

lemma set_status_occurs:
  "List.map_filter set_status (map occurs evs) = status_changes evs"
proof (induction evs)
  case Nil
  then show ?case by (simp add: status_changes_def List.map_filter_simps)
next
  case (Cons e evs)
  obtain t a where e: "e = (t, a)" by (cases e)
  show ?case using Cons
    by (cases a) (simp_all add: e status_changes_def List.map_filter_simps)
qed

lemma status_at:
  "operationStatus (state_at T evs s)
     = last (operationStatus s # map snd (filter (\<lambda>c. fst c \<le> T) (sort_key fst (status_changes evs))))"
  by (simp add: state_at_def timeline_def opstatus_fold set_status_filter set_status_sort set_status_occurs)

lemma status_run:
  "operationStatus (run evs s) = last (operationStatus s # map snd (sort_key fst (status_changes evs)))"
  by (simp add: run_def timeline_def opstatus_fold set_status_sort set_status_occurs)

lemma status_changes_append: "status_changes (xs @ ys) = status_changes xs @ status_changes ys"
  by (simp add: status_changes_def map_filter_def)

lemma status_changes_Cons: "status_changes (e # es) = (case change_of e of None \<Rightarrow> status_changes es | Some c \<Rightarrow> c # status_changes es)"
  by (simp add: status_changes_def List.map_filter_simps split: option.splits)

lemma status_changes_Nil: "status_changes [] = []"
  by (simp add: status_changes_def List.map_filter_simps)


text \<open>
  The last element of a stably sorted list: when everything before an element of the
  list is no later than it, the last one is that element or a later element of the
  rest.
\<close>

lemma sort_key_not_Nil: "xs \<noteq> [] \<Longrightarrow> sort_key f xs \<noteq> []"
  by (metis length_sort length_0_conv)

lemma sorted_le_last: "sorted xs \<Longrightarrow> x \<in> set xs \<Longrightarrow> x \<le> last xs"
  by (induction xs) auto

lemma last_filter_keep: "xs \<noteq> [] \<Longrightarrow> P (last xs) \<Longrightarrow> last (filter P xs) = last xs"
  by (induction xs) (auto simp: filter_empty_conv)

lemma last_sorted:
  assumes "\<forall>c \<in> set pre. fst c \<le> (t::nat)"
  shows "last (sort_key fst (pre @ (t, g) # post)) \<in> insert (t, g) {c \<in> set post. t \<le> fst c}"
proof -
  define L where "L = pre @ (t, g) # post"
  define S where "S = sort_key fst L"
  define x where "x = last S"
  define k where "k = fst x"
  have ne: "S \<noteq> []" by (simp add: S_def L_def sort_key_not_Nil)
  have xS: "x \<in> set S" using ne by (simp add: x_def)
  have "sorted (map fst S)" by (simp add: S_def)
  moreover have "t \<in> set (map fst S)" by (simp add: S_def L_def)
  ultimately have "t \<le> last (map fst S)" by (rule sorted_le_last)
  then have tk: "t \<le> k" using ne by (simp add: k_def x_def last_map)
  have "x = last (filter (\<lambda>y. fst y = k) S)"
    by (simp add: x_def k_def last_filter_keep ne)
  also have "filter (\<lambda>y. fst y = k) S = filter (\<lambda>y. fst y = k) L"
    unfolding S_def by (rule sort_key_stable)
  finally have x: "x = last (filter (\<lambda>y. fst y = k) L)" .
  have nonempty: "filter (\<lambda>y. fst y = k) L \<noteq> []"
    using xS by (auto simp: S_def k_def filter_empty_conv)
  show ?thesis
  proof (cases "filter (\<lambda>y. fst y = k) post = []")
    case False
    then have "x = last (filter (\<lambda>y. fst y = k) post)"
      by (simp add: x L_def)
    moreover have "last (filter (\<lambda>y. fst y = k) post) \<in> set (filter (\<lambda>y. fst y = k) post)"
      using False by (rule last_in_set)
    ultimately have "x \<in> set post" "fst x = k" by auto
    then show ?thesis using tk by (simp add: x_def S_def L_def)
  next
    case True
    show ?thesis
    proof (cases "t = k")
      case True
      then have "x = (t, g)" using \<open>filter (\<lambda>y. fst y = k) post = []\<close>
        by (simp add: x L_def)
      then show ?thesis by (simp add: x_def S_def L_def)
    next
      case False
      then have "filter (\<lambda>y. fst y = k) pre = []"
        using assms tk by (auto simp: filter_empty_conv)
      then have "filter (\<lambda>y. fst y = k) L = []"
        using False True by (simp add: L_def)
      then show ?thesis using nonempty by simp
    qed
  qed
qed

lemma last_change:
  assumes "\<forall>c \<in> set pre. fst c \<le> T \<longrightarrow> fst c \<le> (t::nat)" and "t \<le> T"
  shows "last (s0 # map snd (filter (\<lambda>c. fst c \<le> T) (sort_key fst (pre @ (t, g) # post))))
           \<in> insert g (snd ` {c \<in> set post. t \<le> fst c \<and> fst c \<le> T})"
proof -
  let ?P = "\<lambda>c. fst c \<le> T"
  have eq: "filter ?P (sort_key fst (pre @ (t, g) # post))
          = sort_key fst (filter ?P pre @ (t, g) # filter ?P post)"
    using assms(2) by (simp add: filter_sort)
  have "last (sort_key fst (filter ?P pre @ (t, g) # filter ?P post))
          \<in> insert (t, g) {c \<in> set (filter ?P post). t \<le> fst c}"
    by (rule last_sorted) (use assms(1) in auto)
  moreover have "sort_key fst (filter ?P pre @ (t, g) # filter ?P post) \<noteq> []"
    by (simp add: sort_key_not_Nil)
  ultimately show ?thesis
    unfolding eq by (auto simp: last_map)
qed

lemma last_change_all:
  assumes "\<forall>c \<in> set pre. fst c \<le> (t::nat)"
  shows "last (s0 # map snd (sort_key fst (pre @ (t, g) # post)))
           \<in> insert g (snd ` {c \<in> set post. t \<le> fst c})"
proof -
  have "last (sort_key fst (pre @ (t, g) # post)) \<in> insert (t, g) {c \<in> set post. t \<le> fst c}"
    by (rule last_sorted) (rule assms)
  moreover have "sort_key fst (pre @ (t, g) # post) \<noteq> []" by (simp add: sort_key_not_Nil)
  ultimately show ?thesis by (auto simp: last_map)
qed

lemma status_at_cases:
  assumes "status_changes evs = pre @ (t, g) # post"
    and "\<forall>c \<in> set pre. fst c \<le> T \<longrightarrow> fst c \<le> t" and "t \<le> T"
  shows "operationStatus (state_at T evs s) = g \<or>
         (\<exists>c \<in> set post. t \<le> fst c \<and> fst c \<le> T \<and> operationStatus (state_at T evs s) = snd c)"
proof -
  have "operationStatus (state_at T evs s)
           \<in> insert g (snd ` {c \<in> set post. t \<le> fst c \<and> fst c \<le> T})"
    unfolding status_at assms(1) using assms(2,3) by (rule last_change)
  then show ?thesis by auto
qed

lemma status_run_cases:
  assumes "status_changes evs = pre @ (t, g) # post"
    and "\<forall>c \<in> set pre. fst c \<le> t"
  shows "operationStatus (run evs s) = g \<or>
         (\<exists>c \<in> set post. t \<le> fst c \<and> operationStatus (run evs s) = snd c)"
proof -
  have "operationStatus (run evs s) \<in> insert g (snd ` {c \<in> set post. t \<le> fst c})"
    unfolding status_run assms(1) using assms(2) by (rule last_change_all)
  then show ?thesis by auto
qed

subsection \<open>Loading\<close>

lemma loadModels_shape:
  "(\<exists>t'. loadModelConfigurations ls t = ([], t) \<or>
         loadModelConfigurations ls t = ([(t, Call GetModelConfigurations)], t') \<and> t \<le> t' \<or>
         (\<exists>ms. loadModelConfigurations ls t = ([(t, Call GetModelConfigurations), (t', SetModelConfigs ms)], t') \<and> t \<le> t'))"
proof (cases ls)
  case None
  then show ?thesis by (simp add: loadModelConfigurations_def)
next
  case (Some r)
  show ?thesis
  proof (cases "getModelConfigurations r")
    case None
    then show ?thesis by (simp add: loadModelConfigurations_def Some)
  next
    case resp: (Some resp)
    show ?thesis
    proof (cases "outcome resp")
      case (Rejected e)
      then show ?thesis by (simp add: loadModelConfigurations_def Some resp)
    next
      case (Resolved result)
      then show ?thesis
        by (cases "payload result") (simp_all add: loadModelConfigurations_def Some resp)
    qed
  qed
qed


lemma loadModels_sorted:
  "sorted (map fst (fst (loadModelConfigurations ls t)))"
  using loadModels_shape [of ls t] by auto

lemma loadModels_bounds:
  "e \<in> set (fst (loadModelConfigurations ls t)) \<Longrightarrow>
     t \<le> fst e \<and> fst e \<le> snd (loadModelConfigurations ls t)"
  using loadModels_shape [of ls t] by auto

lemma loadModels_occurs:
  "map occurs (fst (loadModelConfigurations ls t)) = fst (loadModelConfigurations ls t)"
  using loadModels_shape [of ls t] by auto

lemma loadModels_end: "t \<le> snd (loadModelConfigurations ls t)"
  using loadModels_shape [of ls t] by auto

lemma sort_sorted: "sorted (map fst xs) \<Longrightarrow> sort_key fst xs = xs"
  by (rule sort_key_id_if_sorted)

lemma load_occurs:
  "map occurs (fst (loadConfigurationInfo ls t)) = fst (loadConfigurationInfo ls t)"
  by (auto simp: loadConfigurationInfo_def Let_def split_beta loadModels_occurs
        split: option.splits reply.splits)

lemma load_sorted: "sorted (map fst (fst (loadConfigurationInfo ls t)))"
proof (cases ls)
  case None
  then show ?thesis by (simp add: loadConfigurationInfo_def)
next
  case (Some r)
  define t1 where "t1 = t + delay (getConfigurationInfo r)"
  have le: "t \<le> t1" by (simp add: t1_def)
  have ms: "sorted (map fst (fst (loadModelConfigurations (Some r) t1)))"
    by (rule loadModels_sorted)
  have lo: "t1 \<le> fst e" and hi: "fst e \<le> snd (loadModelConfigurations (Some r) t1)"
    if "e \<in> set (fst (loadModelConfigurations (Some r) t1))" for e
    using loadModels_bounds [OF that] by simp_all
  have en: "t1 \<le> snd (loadModelConfigurations (Some r) t1)"
    by (rule loadModels_end)
  show ?thesis
    using le ms en
    by (auto simp: Some loadConfigurationInfo_def Let_def split_beta sorted_append
          simp flip: t1_def dest: lo hi split: option.splits reply.splits)
qed

lemma load_timeline:
  "timeline (fst (loadConfigurationInfo ls t)) = fst (loadConfigurationInfo ls t)"
  unfolding timeline_def load_occurs using load_sorted by (rule sort_sorted)

lemma loadModels_run:
  "fold perform (map snd (fst (loadModelConfigurations ls t))) s
     = (case models_read ls of None \<Rightarrow> s | Some ms \<Rightarrow> s\<lparr>modelConfigs := ms\<rparr>)"
proof (cases ls)
  case None
  then show ?thesis by (simp add: loadModelConfigurations_def models_read_def)
next
  case (Some r)
  show ?thesis
  proof (cases "getModelConfigurations r")
    case None
    then show ?thesis by (simp add: loadModelConfigurations_def models_read_def Some)
  next
    case resp: (Some resp)
    show ?thesis
    proof (cases "outcome resp")
      case (Rejected e)
      then show ?thesis by (simp add: loadModelConfigurations_def models_read_def Some resp)
    next
      case (Resolved result)
      then show ?thesis
        by (cases "payload result")
           (simp_all add: loadModelConfigurations_def models_read_def Some resp)
    qed
  qed
qed

lemma load_end: "t \<le> snd (loadConfigurationInfo ls t)"
  using loadModels_end [of "t + delay (getConfigurationInfo (the ls))" ls]
  by (cases ls; cases "outcome (getConfigurationInfo (the ls))")
     (auto simp: loadConfigurationInfo_def Let_def split_beta)

lemma status_changes_loadModels: "status_changes (fst (loadModelConfigurations ls t)) = []"
  using loadModels_shape [of ls t]
  by (auto simp: status_changes_Cons status_changes_Nil)

lemma status_changes_load: "status_changes (fst (loadConfigurationInfo ls t)) = []"
  by (cases ls; cases "outcome (getConfigurationInfo (the ls))")
     (auto simp: loadConfigurationInfo_def Let_def split_beta status_changes_Cons
        status_changes_Nil status_changes_append status_changes_loadModels split: option.splits)

lemma load_error_iff:
  "panel.error (run (fst (loadConfigurationInfo ls t)) s) = None \<longleftrightarrow> info_read_ok ls"
  unfolding run_def load_timeline
  by (simp add: loadConfigurationInfo_def Let_def split_beta info_read_ok_def loadModels_run
        split: option.splits reply.splits)

lemma load_models:
  "modelConfigs (run (fst (loadConfigurationInfo ls t)) s)
     = (if info_read_ok ls then (case models_read ls of None \<Rightarrow> modelConfigs s | Some ms \<Rightarrow> ms)
        else modelConfigs s)"
  unfolding run_def load_timeline
  by (simp add: loadConfigurationInfo_def Let_def split_beta info_read_ok_def loadModels_run
        split: option.splits reply.splits)

lemma calls_load:
  "\<exists>rest. calls (fst (loadConfigurationInfo (Some r) t)) = GetConfigurationInfo # rest"
  by (cases "outcome (getConfigurationInfo r)")
     (auto simp: loadConfigurationInfo_def Let_def split_beta calls_unfold)

lemmas changes_unfold = status_changes_Cons status_changes_Nil status_changes_append
  status_changes_load status_def timer_def failed_def

lemma llama_fields:
  "getConfigurationInfo llama = ok two_backends 20"
  "getModelConfigurations llama = Some (ok (Some [model_m1, model_m2]) 10)"
  "setBackendOverride llama = ok () 50"
  "restartWithOverrides llama = ok () 500"
  "regenerateConfig llama = ok 2 100"
  "saveConfigFromJson llama = ok None 100"
  "saveConfigAndRestart llama = ok () 700"
  "saveModelConfiguration' llama = ok () 30"
  "saveAllModelConfigurations' llama = ok () 40"
  by (simp_all add: llama_def)

lemma load_end_llama: "snd (loadConfigurationInfo (Some llama) t) = t + 30"
  by (simp add: loadConfigurationInfo_def loadModelConfigurations_def llama_fields ok_def Let_def)

text \<open>The example panel is what the first load from \<open>llama\<close> makes of the initial state.\<close>

lemma loaded_is_first_load: "run (fst (loadConfigurationInfo (Some llama) 0)) initial = loaded"
  unfolding run_def load_timeline
  by (simp add: loadConfigurationInfo_def loadModelConfigurations_def llama_fields ok_def
        two_backends_def loaded_def initial_def Let_def document_def)

section \<open>Patching a model\<close>

text \<open>
  C7, as the code has it: for a name that no model of the registry carries,
  \<^verbatim>\<open>updateModelConfig\<close> leaves the registry and everything else as it is, except that it
  sets \<^verbatim>\<open>hasUnsavedChanges\<close>. It reports nothing: the function has no failure branch.
\<close>

theorem patch_unknown_name:
  "\<forall>m \<in> set (modelConfigs s). \<not> has_name n m \<Longrightarrow>
   modelConfigs (updateModelConfig n f v s) = modelConfigs s \<and>
   updateModelConfig n f v s = s\<lparr>hasUnsavedChanges := True\<rparr>"
  by (simp add: updateModelConfig_def map_idI)

theorem patch_unknown_name_witness:
  "modelConfigs (updateModelConfig ''m3'' ''gpuLayers'' (JNum 20) loaded) = modelConfigs loaded \<and>
   updateModelConfig ''m3'' ''gpuLayers'' (JNum 20) loaded = loaded\<lparr>hasUnsavedChanges := True\<rparr>"
proof -
  have "\<forall>m \<in> set (modelConfigs loaded). \<not> has_name ''m3'' m"
    by (simp add: loaded_def has_name_def model_m1_def model_m2_def)
  then show ?thesis by (rule patch_unknown_name)
qed

text \<open>
  C7 as stated fails: the patch of the unknown name \<open>m3\<close> is no no-op, it turns
  \<^verbatim>\<open>hasUnsavedChanges\<close> from false to true.
\<close>

theorem patch_unknown_name_marks_dirty:
  "find (has_name ''m3'') (modelConfigs loaded) = None \<and>
   hasUnsavedChanges loaded = False \<and>
   hasUnsavedChanges (updateModelConfig ''m3'' ''gpuLayers'' (JNum 20) loaded) = True"
  by (simp add: loaded_def initial_def updateModelConfig_def has_name_def model_m1_def
        model_m2_def)

text \<open>
  C9: every patch sets \<^verbatim>\<open>hasUnsavedChanges\<close>, whatever the name, the property and the
  value, so also when the value is the one the property already has. When
  \<^verbatim>\<open>saveAllModelConfigurations\<close> has succeeded after a patch the flag is cleared, and the
  same patch again sets it again.
\<close>

theorem patch_marks_dirty:
  "hasUnsavedChanges (updateModelConfig n f v s) \<and>
   (outcome (saveAllModelConfigurations' r) = Resolved res \<longrightarrow> success res \<longrightarrow>
      \<not> hasUnsavedChanges
          (run (saveAllModelConfigurations (Some r) (updateModelConfig n f v s) t)
               (updateModelConfig n f v s)) \<and>
      hasUnsavedChanges
        (updateModelConfig n f v
           (run (saveAllModelConfigurations (Some r) (updateModelConfig n f v s) t)
                (updateModelConfig n f v s))))"
  by (simp add: updateModelConfig_def saveAllModelConfigurations_def handler_unfold)

theorem patch_marks_dirty_witness:
  "hasUnsavedChanges (updateModelConfig ''m1'' ''gpuLayers'' (JNum 20) loaded) \<and>
   modelConfigs (updateModelConfig ''m1'' ''gpuLayers'' (JNum 20) loaded) = modelConfigs loaded \<and>
   \<not> hasUnsavedChanges
       (run (saveAllModelConfigurations (Some llama)
               (updateModelConfig ''m1'' ''gpuLayers'' (JNum 20) loaded) 0)
            (updateModelConfig ''m1'' ''gpuLayers'' (JNum 20) loaded)) \<and>
   hasUnsavedChanges
     (updateModelConfig ''m1'' ''gpuLayers'' (JNum 20)
        (run (saveAllModelConfigurations (Some llama)
                (updateModelConfig ''m1'' ''gpuLayers'' (JNum 20) loaded) 0)
             (updateModelConfig ''m1'' ''gpuLayers'' (JNum 20) loaded)))"
proof -
  have o: "outcome (saveAllModelConfigurations' llama)
             = Resolved \<lparr>success = True, error = None, payload = ()\<rparr>"
    by (simp add: llama_def ok_def)
  have same: "modelConfigs (updateModelConfig ''m1'' ''gpuLayers'' (JNum 20) loaded) = modelConfigs loaded"
    by (simp add: updateModelConfig_def loaded_def has_name_def model_m1_def model_m2_def)
  show ?thesis
    using patch_marks_dirty [of "''m1''" "''gpuLayers''" "JNum 20" loaded llama
        "\<lparr>success = True, error = None, payload = ()\<rparr>" 0] o same
    by simp
qed

text \<open>
  C10: a patch changes the registry and \<^verbatim>\<open>hasUnsavedChanges\<close> only. The registry keeps
  its length; a model with another name is unchanged; in a model with the name, the
  patched property has the new value and every other property its old one.
\<close>

theorem patch_frame:
  "length (modelConfigs (updateModelConfig n f v s)) = length (modelConfigs s) \<and>
   (\<forall>i < length (modelConfigs s).
      (\<not> has_name n (modelConfigs s ! i) \<longrightarrow>
         modelConfigs (updateModelConfig n f v s) ! i = modelConfigs s ! i) \<and>
      (has_name n (modelConfigs s ! i) \<longrightarrow>
         map_of (modelConfigs (updateModelConfig n f v s) ! i) f = Some v \<and>
         (\<forall>g. g \<noteq> f \<longrightarrow> map_of (modelConfigs (updateModelConfig n f v s) ! i) g
                           = map_of (modelConfigs s ! i) g))) \<and>
   operationStatus (updateModelConfig n f v s) = operationStatus s \<and>
   configInfo (updateModelConfig n f v s) = configInfo s \<and>
   jsonConfig (updateModelConfig n f v s) = jsonConfig s \<and>
   jsonError (updateModelConfig n f v s) = jsonError s \<and>
   updateModelConfig n f v s
     = s\<lparr>modelConfigs := modelConfigs (updateModelConfig n f v s), hasUnsavedChanges := True\<rparr>"
  by (simp add: updateModelConfig_def update_conv')

theorem patch_frame_witness:
  "modelConfigs (updateModelConfig ''m1'' ''gpuLayers'' (JNum 35) loaded) ! 1 = model_m2 \<and>
   map_of (modelConfigs (updateModelConfig ''m1'' ''gpuLayers'' (JNum 35) loaded) ! 0) ''gpuLayers''
     = Some (JNum 35) \<and>
   map_of (modelConfigs (updateModelConfig ''m1'' ''gpuLayers'' (JNum 35) loaded) ! 0) ''port''
     = Some (JNum 9001) \<and>
   operationStatus (updateModelConfig ''m1'' ''gpuLayers'' (JNum 35) loaded) = operationStatus loaded"
proof -
  have len: "length (modelConfigs loaded) = 2"
    and m1: "modelConfigs loaded ! 0 = model_m1" and m2: "modelConfigs loaded ! 1 = model_m2"
    by (simp_all add: loaded_def)
  have n1: "has_name ''m1'' model_m1" and n2: "\<not> has_name ''m1'' model_m2"
    by (simp_all add: has_name_def model_m1_def model_m2_def)
  have p: "map_of model_m1 ''port'' = Some (JNum 9001)"
    by (simp add: model_m1_def)
  show ?thesis
    using patch_frame [of "''m1''" "''gpuLayers''" "JNum 35" loaded] len m1 m2 n1 n2 p
    by (simp add: numeral_2_eq_2 All_less_Suc)
qed

section \<open>Saving models\<close>

text \<open>
  \<^verbatim>\<open>hasUnsavedChanges\<close> is one flag for the whole panel, and a successful
  \<^verbatim>\<open>saveModelConfiguration\<close> clears it just as a successful
  \<^verbatim>\<open>saveAllModelConfigurations\<close> does. The single save sends the one model it was
  asked for, the bulk save the whole registry.
\<close>

lemma model_saves_clear_dirty:
  "(find (has_name n) (modelConfigs s) = Some m \<longrightarrow>
    outcome (saveModelConfiguration' r) = Resolved res \<longrightarrow> success res \<longrightarrow>
      calls (saveModelConfiguration (Some r) s n t) = [SaveModelConfiguration n m] \<and>
      \<not> hasUnsavedChanges (run (saveModelConfiguration (Some r) s n t) s')) \<and>
   (outcome (saveAllModelConfigurations' r) = Resolved res' \<longrightarrow> success res' \<longrightarrow>
      calls (saveAllModelConfigurations (Some r) s t) = [SaveAllModelConfigurations (modelConfigs s)] \<and>
      \<not> hasUnsavedChanges (run (saveAllModelConfigurations (Some r) s t) s'))"
  by (simp add: saveModelConfiguration_def saveAllModelConfigurations_def handler_unfold calls_unfold)

text \<open>
  C5 (a successful save of one model leaves the flag untouched, so that other models
  with unsaved edits stay marked), on the code: the layers of model \<open>m2\<close> are set to 35
  and not saved; then model \<open>m1\<close> is saved by its button. The call carries the record
  of \<open>m1\<close> alone, and the flag is cleared all the same: the registry still holds the
  edit of \<open>m2\<close>, which was sent nowhere, and the button that saves all models is now
  disabled, so a click on it does nothing.
\<close>

theorem save_model_clears_other_edits:
  "hasUnsavedChanges m2_edited \<and>
   map_of (modelConfigs m2_edited ! 1) ''gpuLayers'' = Some (JNum 35) \<and>
   map_of (modelConfigs loaded ! 1) ''gpuLayers'' = Some (JNum 0) \<and>
   calls (click (Some llama) (SaveModel ''m1'') m2_edited 0)
     = [SaveModelConfiguration ''m1'' model_m1] \<and>
   hasUnsavedChanges (run (click (Some llama) (SaveModel ''m1'') m2_edited 0) m2_edited) = False \<and>
   map_of (modelConfigs (run (click (Some llama) (SaveModel ''m1'') m2_edited 0) m2_edited) ! 1)
     ''gpuLayers'' = Some (JNum 35) \<and>
   click (Some llama) SaveAllModels
     (run (click (Some llama) (SaveModel ''m1'') m2_edited 0) m2_edited) 5000 = []"
  by (simp add: m2_edited_def updateModelConfig_def loaded_def initial_def has_name_def
        model_m1_def model_m2_def saveModelConfiguration_def llama_def ok_def handler_unfold
        calls_unfold click_def isOperationInProgress_def)

section \<open>The JSON editor\<close>

lemma join_Cons: "join sep (x # xs) = x @ (if xs = [] then [] else sep @ join sep xs)"
  by (cases xs) simp_all

lemma compact_object: "\<exists>rest. JSON_stringify (JObj (kv # kvs)) 0 = CHR ''{'' # dquote # rest"
  by (simp add: JSON_stringify_def QuoteJSONString_def join_Cons)

lemma pretty_object: "\<exists>rest. JSON_stringify (JObj (kv # kvs)) 2 = CHR ''{'' # newline # rest"
  by (simp add: JSON_stringify_def)

lemma compact_differs: "JSON_stringify (JObj (kv # kvs)) 0 \<noteq> JSON_stringify (JObj (kv # kvs)) 2"
proof -
  obtain a where a: "JSON_stringify (JObj (kv # kvs)) 0 = CHR ''{'' # dquote # a"
    using compact_object by blast
  obtain b where b: "JSON_stringify (JObj (kv # kvs)) 2 = CHR ''{'' # newline # b"
    using pretty_object by blast
  show ?thesis unfolding a b by (simp add: dquote_def newline_def)
qed

text \<open>
  C8, as the code has it: \<^verbatim>\<open>handleJsonChange\<close> serializes the loaded configuration only
  (with an indentation of two blanks) and compares the text of the editor with it as a
  string. So the flag is false for exactly that text, and true for every other text,
  among them the compact serialization of the same document when that is an object
  with a property.
\<close>

theorem dirty_compares_text:
  "hasUnsavedChanges (handleJsonChange parse text s) = (text \<noteq> originalConfig s) \<and>
   (configInfo s = Some info \<longrightarrow> truthy (configuration info) \<longrightarrow>
      \<not> hasUnsavedChanges (handleJsonChange parse (JSON_stringify (configuration info) 2) s)) \<and>
   (configInfo s = Some info \<longrightarrow> configuration info = JObj (kv # kvs) \<longrightarrow>
      hasUnsavedChanges (handleJsonChange parse (JSON_stringify (configuration info) 0) s))"
  using compact_differs [of kv kvs]
  by (simp add: handleJsonChange_def originalConfig_def)

theorem dirty_compares_text_witness:
  "hasUnsavedChanges (handleJsonChange parse_example ''{}'' loaded) = (''{}'' \<noteq> originalConfig loaded) \<and>
   \<not> hasUnsavedChanges (handleJsonChange parse_example (JSON_stringify document 2) loaded) \<and>
   hasUnsavedChanges (handleJsonChange parse_example (JSON_stringify document 0) loaded)"
proof -
  have c: "configInfo loaded = Some two_backends" by (simp add: loaded_def)
  have d: "configuration two_backends = JObj [(''a'', JNum 1)]"
    by (simp add: two_backends_def document_def)
  have t: "truthy (configuration two_backends)" by (simp add: d)
  show ?thesis
    using dirty_compares_text [of parse_example "''{}''" loaded two_backends "(''a'', JNum 1)" "[]"] c d t
    by (simp add: document_def)
qed

text \<open>
  C8 as stated fails: the editor holds the loaded document itself, serialized without
  indentation, and the flag is true.
\<close>

theorem reformatted_document_is_dirty:
  "configInfo loaded = Some two_backends \<and> configuration two_backends = document \<and>
   JSON_stringify document 0 = [CHR ''{'', dquote, CHR ''a'', dquote, CHR '':'', CHR ''1'', CHR ''}''] \<and>
   hasUnsavedChanges (handleJsonChange parse_example (JSON_stringify document 0) loaded) = True"
  by (simp add: loaded_def two_backends_def document_def handleJsonChange_def originalConfig_def
        JSON_stringify_def QuoteJSONString_def quote_char_def NumberToString_def digit_char_def
        dquote_def backslash_def newline_def)

text \<open>
  The guard of the two saves: when the text typed into the editor fails to parse,
  \<^verbatim>\<open>jsonError\<close> holds the parser's message, the two save buttons are disabled, and the
  handlers, were they invoked, would issue no remote call and set nothing but the error
  status \<^verbatim>\<open>Cannot save configuration with JSON errors\<close>.
\<close>

lemma invalid_text_blocks_save:
  "parse text = Some m \<Longrightarrow> m \<noteq> [] \<Longrightarrow>
   calls (saveConfiguration ls (handleJsonChange parse text s) t) = [] \<and>
   run (saveConfiguration ls (handleJsonChange parse text s) t) (handleJsonChange parse text s)
     = (handleJsonChange parse text s)
         \<lparr>operationStatus :=
            \<lparr>type = Error, message = ''Cannot save configuration with JSON errors''\<rparr>\<rparr> \<and>
   calls (saveConfigurationAndRestart ls (handleJsonChange parse text s) t) = [] \<and>
   run (saveConfigurationAndRestart ls (handleJsonChange parse text s) t)
       (handleJsonChange parse text s)
     = (handleJsonChange parse text s)
         \<lparr>operationStatus :=
            \<lparr>type = Error, message = ''Cannot save configuration with JSON errors''\<rparr>\<rparr> \<and>
   click ls SaveConfig (handleJsonChange parse text s) t = [] \<and>
   click ls SaveConfigAndRestart_intent (handleJsonChange parse text s) t = []"
  by (simp add: saveConfiguration_def saveConfigurationAndRestart_def handleJsonChange_def
        handler_unfold calls_unfold click_def)

lemma typed_brace_blocks_save:
  "click (Some llama) SaveConfig brace_typed 0 = [] \<and>
   click (Some llama) SaveConfigAndRestart_intent brace_typed 0 = []"
proof -
  have p: "parse_example ''{'' = Some ''Unexpected end of JSON input''"
    by (simp add: parse_example_def)
  have ne: "''Unexpected end of JSON input'' \<noteq> []" by simp
  show ?thesis
    unfolding brace_typed_def
    using invalid_text_blocks_save
          [of parse_example "''{''" "''Unexpected end of JSON input''" "Some llama" loaded 0,
           OF p ne]
    by blast
qed

text \<open>
  The guard reads \<^verbatim>\<open>jsonError\<close>, not the text. The text of the editor is empty until a
  load delivers a document, and the empty text is no JSON document: no value is
  serialized to it (and \<^verbatim>\<open>JSON.parse('')\<close> throws).
\<close>

lemma NatToString_not_Nil: "NatToString n \<noteq> []"
  by (subst NatToString.simps) simp

lemma serialize_not_Nil: "serialize ind cur v \<noteq> []"
  by (cases v) (simp_all add: NumberToString_def NatToString_not_Nil QuoteJSONString_def)

lemma stringify_not_Nil: "JSON_stringify v n \<noteq> []"
  by (simp add: JSON_stringify_def serialize_not_Nil)

lemma bare_fields:
  "getConfigurationInfo bare = ok no_document 20"
  "getModelConfigurations bare = Some (ok (Some [model_m1, model_m2]) 10)"
  "saveConfigFromJson bare = ok None 100"
  "saveConfigAndRestart bare = ok () 700"
  by (simp_all add: bare_def llama_def)

lemma slider_moved_eq:
  "slider_moved = initial\<lparr>configInfo := Some no_document, loading := False,
     actualBackend := ''cpu'',
     modelConfigs := [AList.update ''gpuLayers'' (JNum 35) model_m1, model_m2],
     hasUnsavedChanges := True\<rparr>"
  by (simp add: slider_moved_def loadConfigurationInfo_def loadModelConfigurations_def
        bare_fields ok_def no_document_def two_backends_def run_def timeline_def
        updateModelConfig_def has_name_def model_m1_def model_m2_def initial_def)

text \<open>
  C3 (for a text of the editor that fails validation, a save issues no remote call), on
  the code: the control plane \<open>bare\<close> delivers no configuration document, so after the
  load the text of the editor is still empty and \<^verbatim>\<open>jsonError\<close> is still null, as nothing
  was typed. A slider of a model is moved, which sets \<^verbatim>\<open>hasUnsavedChanges\<close>. Now both
  save buttons are enabled, and a click on either sends the empty text to the control
  plane; the phase goes to saving, and the flag is cleared when the call returns at 100.
\<close>

theorem empty_buffer_is_saved:
  "jsonConfig slider_moved = [] \<and> jsonError slider_moved = None \<and>
   hasUnsavedChanges slider_moved \<and> type (operationStatus slider_moved) = Idle \<and>
   take 2 (click (Some bare) SaveConfig slider_moved 0)
     = [(0, status Saving ''Saving configuration...''), (0, Call (SaveConfigFromJson []))] \<and>
   calls (click (Some bare) SaveConfig slider_moved 0)
     = [SaveConfigFromJson [], GetConfigurationInfo, GetModelConfigurations] \<and>
   calls (click (Some bare) SaveConfigAndRestart_intent slider_moved 0)
     = [SaveConfigAndRestart [], GetConfigurationInfo, GetModelConfigurations] \<and>
   operationStatus (state_at 0 (click (Some bare) SaveConfig slider_moved 0) slider_moved)
     = \<lparr>type = Saving, message = ''Saving configuration...''\<rparr> \<and>
   hasUnsavedChanges (state_at 100 (click (Some bare) SaveConfig slider_moved 0) slider_moved)
     = False"
  by (simp add: slider_moved_eq initial_def click_def isOperationInProgress_def
        saveConfiguration_def saveConfigurationAndRestart_def bare_fields ok_def calls_unfold
        state_at_def timeline_def
        loadConfigurationInfo_def loadModelConfigurations_def no_document_def two_backends_def)

section \<open>Loading the snapshot\<close>

text \<open>
  C6, as the code has it: \<^verbatim>\<open>loadConfigurationInfo\<close> ends with \<^verbatim>\<open>error\<close> set exactly when
  the read of the configuration info fails (the service is missing, the call rejects, or
  it resolves without \<^verbatim>\<open>success\<close>). When that read succeeds and the read of the models
  delivers nothing, the load succeeds and \<^verbatim>\<open>modelConfigs\<close> is what it was before the
  load; it is replaced only by models that were delivered.
\<close>

theorem load_outcome:
  "(panel.error (run (fst (loadConfigurationInfo ls t)) s) = None) = info_read_ok ls \<and>
   (info_read_ok ls \<longrightarrow> models_read ls = None \<longrightarrow>
      modelConfigs (run (fst (loadConfigurationInfo ls t)) s) = modelConfigs s) \<and>
   (info_read_ok ls \<longrightarrow> models_read ls = Some ms \<longrightarrow>
      modelConfigs (run (fst (loadConfigurationInfo ls t)) s) = ms) \<and>
   (\<not> info_read_ok ls \<longrightarrow>
      modelConfigs (run (fst (loadConfigurationInfo ls t)) s) = modelConfigs s)"
  by (simp add: load_error_iff load_models)

lemma models_down_reads:
  "info_read_ok (Some models_down)" "models_read (Some models_down) = None"
  by (simp_all add: info_read_ok_def models_read_def models_down_def llama_def ok_def)

lemma llama_reads:
  "info_read_ok (Some llama)" "models_read (Some llama) = Some [model_m1, model_m2]"
  by (simp_all add: info_read_ok_def models_read_def llama_def ok_def)

theorem load_outcome_witness:
  "panel.error (run (fst (loadConfigurationInfo (Some models_down) 0)) loaded) = None \<and>
   modelConfigs (run (fst (loadConfigurationInfo (Some models_down) 0)) loaded) = modelConfigs loaded \<and>
   panel.error (run (fst (loadConfigurationInfo (Some llama) 0)) initial) = None \<and>
   modelConfigs (run (fst (loadConfigurationInfo (Some llama) 0)) initial) = [model_m1, model_m2] \<and>
   panel.error (run (fst (loadConfigurationInfo None 0)) initial) \<noteq> None \<and>
   modelConfigs (run (fst (loadConfigurationInfo None 0)) initial) = modelConfigs initial"
  using load_outcome [of "Some models_down" 0 loaded "[]"]
    load_outcome [of "Some llama" 0 initial "[model_m1, model_m2]"]
    load_outcome [of None 0 initial "[]"]
    models_down_reads llama_reads
  by (simp add: info_read_ok_def)

text \<open>
  C6 as stated fails: on a reload the read of the models is lost, the load succeeds, and
  the panel keeps its two models instead of an empty list.
\<close>

theorem failed_model_read_keeps_models:
  "info_read_ok (Some models_down) \<and> models_read (Some models_down) = None \<and>
   panel.error (run (fst (loadConfigurationInfo (Some models_down) 0)) loaded) = None \<and>
   modelConfigs (run (fst (loadConfigurationInfo (Some models_down) 0)) loaded)
     = [model_m1, model_m2]"
  by (simp add: load_error_iff load_models models_down_reads) (simp add: loaded_def)

section \<open>Changing the backend\<close>

lemma progress_restarting:
  "c \<in> set (backend_progress bid t1) \<Longrightarrow> type (snd c) = Restarting \<and> t1 \<le> fst c"
  by (auto simp: backend_progress_def)

lemma set_rejected:
  assumes "outcome (setBackendOverride r) = Rejected e"
  shows "status_changes (handleBackendChange (Some r) bid t0) =
     [(t0, \<lparr>type = Saving, message = ''Updating backend selection...''\<rparr>),
      (t0 + delay (setBackendOverride r),
       \<lparr>type = Error, message = caught e ''Failed to change backend''\<rparr>),
      (t0 + delay (setBackendOverride r) + 5000, \<lparr>type = Idle, message = []\<rparr>)]"
    and "calls (handleBackendChange (Some r) bid t0)
           = [SetBackendOverride (if bid = ''auto'' then None else Some bid)]"
  using assms by (simp_all add: handleBackendChange_def changes_unfold calls_unfold)

lemma set_refused:
  assumes "outcome (setBackendOverride r) = Resolved res" "\<not> success res"
  shows "status_changes (handleBackendChange (Some r) bid t0) =
     [(t0, \<lparr>type = Saving, message = ''Updating backend selection...''\<rparr>),
      (t0 + delay (setBackendOverride r),
       \<lparr>type = Error, message = or_default (result.error res) ''Failed to set backend''\<rparr>),
      (t0 + delay (setBackendOverride r) + 5000, \<lparr>type = Idle, message = []\<rparr>)]"
    and "calls (handleBackendChange (Some r) bid t0)
           = [SetBackendOverride (if bid = ''auto'' then None else Some bid)]"
  using assms by (simp_all add: handleBackendChange_def changes_unfold calls_unfold)

lemma restart_rejected:
  assumes "outcome (setBackendOverride r) = Resolved res" "success res"
    and "outcome (restartWithOverrides r) = Rejected e"
  shows "status_changes (handleBackendChange (Some r) bid t0) =
     (t0, \<lparr>type = Saving, message = ''Updating backend selection...''\<rparr>) #
     backend_progress bid (t0 + delay (setBackendOverride r)) @
     [(t0 + delay (setBackendOverride r) + delay (restartWithOverrides r),
       \<lparr>type = Error, message = caught e ''Failed to change backend''\<rparr>),
      (t0 + delay (setBackendOverride r) + delay (restartWithOverrides r) + 5000,
       \<lparr>type = Idle, message = []\<rparr>)]"
    and "calls (handleBackendChange (Some r) bid t0)
           = [SetBackendOverride (if bid = ''auto'' then None else Some bid), RestartWithOverrides]"
  using assms
  by (simp_all add: handleBackendChange_def changes_unfold calls_unfold backend_progress_def)

lemma restart_refused:
  assumes "outcome (setBackendOverride r) = Resolved res" "success res"
    and "outcome (restartWithOverrides r) = Resolved res2" "\<not> success res2"
  shows "status_changes (handleBackendChange (Some r) bid t0) =
     (t0, \<lparr>type = Saving, message = ''Updating backend selection...''\<rparr>) #
     backend_progress bid (t0 + delay (setBackendOverride r)) @
     [(t0 + delay (setBackendOverride r) + delay (restartWithOverrides r),
       \<lparr>type = Error,
          message = or_default (result.error res2) ''Failed to restart service with new backend''\<rparr>),
      (t0 + delay (setBackendOverride r) + delay (restartWithOverrides r) + 5000,
       \<lparr>type = Idle, message = []\<rparr>)]"
    and "calls (handleBackendChange (Some r) bid t0)
           = [SetBackendOverride (if bid = ''auto'' then None else Some bid), RestartWithOverrides]"
  using assms
  by (simp_all add: handleBackendChange_def changes_unfold calls_unfold backend_progress_def)

lemma restart_ok:
  assumes "outcome (setBackendOverride r) = Resolved res" "success res"
    and "outcome (restartWithOverrides r) = Resolved res2" "success res2"
  shows "status_changes (handleBackendChange (Some r) bid t0) =
     (t0, \<lparr>type = Saving, message = ''Updating backend selection...''\<rparr>) #
     backend_progress bid (t0 + delay (setBackendOverride r)) @
     [(t0 + delay (setBackendOverride r) + delay (restartWithOverrides r),
       \<lparr>type = Success, message = changed_message bid\<rparr>),
      (snd (loadConfigurationInfo (Some r)
              (t0 + delay (setBackendOverride r) + delay (restartWithOverrides r))) + 3000,
       \<lparr>type = Idle, message = []\<rparr>)]"
    and "calls (handleBackendChange (Some r) bid t0)
           = SetBackendOverride (if bid = ''auto'' then None else Some bid) # RestartWithOverrides #
             calls (fst (loadConfigurationInfo (Some r)
                      (t0 + delay (setBackendOverride r) + delay (restartWithOverrides r))))"
  using assms
  by (simp_all add: handleBackendChange_def changes_unfold calls_unfold backend_progress_def
        changed_message_def Let_def split_beta)

text \<open>The status changes after the first one happen when the first call has returned.\<close>

lemma after_saving:
  "\<exists>rest. status_changes (handleBackendChange (Some r) bid t0) =
            (t0, \<lparr>type = Saving, message = ''Updating backend selection...''\<rparr>) # rest \<and>
          (\<forall>c \<in> set rest. t0 + delay (setBackendOverride r) \<le> fst c)"
proof (cases "outcome (setBackendOverride r)")
  case (Rejected e)
  then show ?thesis by (simp add: set_rejected)
next
  case res: (Resolved res)
  show ?thesis
  proof (cases "success res")
    case False
    then show ?thesis using res by (simp add: set_refused)
  next
    case True
    note le = load_end [of "t0 + delay (setBackendOverride r) + delay (restartWithOverrides r)" "Some r"]
    show ?thesis
    proof (cases "outcome (restartWithOverrides r)")
      case (Rejected e)
      then show ?thesis using res True
        by (auto simp: restart_rejected dest: progress_restarting)
    next
      case res2: (Resolved res2)
      then show ?thesis using res True le
        by (cases "success res2") (auto simp: restart_refused restart_ok dest: progress_restarting)
    qed
  qed
qed

text \<open>When the override is set: the progress messages, and nothing else before the restart returns.\<close>

lemma after_restarting:
  assumes "outcome (setBackendOverride r) = Resolved res" "success res"
  shows "\<exists>g rest. status_changes (handleBackendChange (Some r) bid t0) =
            (t0, \<lparr>type = Saving, message = ''Updating backend selection...''\<rparr>) #
            backend_progress bid (t0 + delay (setBackendOverride r)) @ 
            (t0 + delay (setBackendOverride r) + delay (restartWithOverrides r), g) # rest \<and>
          (\<forall>c \<in> set rest. t0 + delay (setBackendOverride r) + delay (restartWithOverrides r) < fst c)"
proof -
  note le = load_end [of "t0 + delay (setBackendOverride r) + delay (restartWithOverrides r)" "Some r"]
  show ?thesis
  proof (cases "outcome (restartWithOverrides r)")
    case (Rejected e)
    then show ?thesis using assms by (simp add: restart_rejected)
  next
    case res2: (Resolved res2)
    then show ?thesis using assms le
      by (cases "success res2") (simp_all add: restart_refused restart_ok)
  qed
qed

lemma saving_until_set:
  assumes "t0 \<le> T" "T < t0 + delay (setBackendOverride r)"
  shows "operationStatus (state_at T (handleBackendChange (Some r) bid t0) s)
           = \<lparr>type = Saving, message = ''Updating backend selection...''\<rparr>"
proof -
  obtain rest where c: "status_changes (handleBackendChange (Some r) bid t0) =
            [] @ (t0, \<lparr>type = Saving, message = ''Updating backend selection...''\<rparr>) # rest"
    and l: "\<forall>c \<in> set rest. t0 + delay (setBackendOverride r) \<le> fst c"
    using after_saving [of r bid t0] by auto
  from status_at_cases [OF c, of T s] show ?thesis
    using assms l by auto
qed

lemma restarting_until_restarted:
  assumes "outcome (setBackendOverride r) = Resolved res" "success res"
    and "t0 + delay (setBackendOverride r) \<le> T"
    and "T < t0 + delay (setBackendOverride r) + delay (restartWithOverrides r)"
  shows "type (operationStatus (state_at T (handleBackendChange (Some r) bid t0) s)) = Restarting"
proof -
  obtain g rest where "status_changes (handleBackendChange (Some r) bid t0) =
            (t0, \<lparr>type = Saving, message = ''Updating backend selection...''\<rparr>) #
            backend_progress bid (t0 + delay (setBackendOverride r)) @ 
            (t0 + delay (setBackendOverride r) + delay (restartWithOverrides r), g) # rest"
    and l: "\<forall>c \<in> set rest. t0 + delay (setBackendOverride r) + delay (restartWithOverrides r) < fst c"
    using after_restarting [OF assms(1,2), of bid t0] by auto
  then have c: "status_changes (handleBackendChange (Some r) bid t0) =
      [(t0, \<lparr>type = Saving, message = ''Updating backend selection...''\<rparr>)] @
      (t0 + delay (setBackendOverride r), \<lparr>type = Restarting, message = ''Stopping service...''\<rparr>) #
      (tl (backend_progress bid (t0 + delay (setBackendOverride r))) @ 
            (t0 + delay (setBackendOverride r) + delay (restartWithOverrides r), g) # rest)"
    by (simp add: backend_progress_def)
  have "c \<in> set (tl (backend_progress bid t1)) \<Longrightarrow> type (snd c) = Restarting" for c t1
    using progress_restarting [of c bid t1] by (auto simp: backend_progress_def)
  with status_at_cases [OF c, of T s] show ?thesis
    using assms(3,4) l by auto
qed

lemma at_restart_return:
  assumes "status_changes evs = (t0, st) # backend_progress bid t1 @ [(t2, g), (t3, h)]"
    and "t0 \<le> t1" "t1 \<le> t2" "t2 < t3"
  shows "operationStatus (state_at t2 evs s) = g"
proof -
  have c: "status_changes evs = ((t0, st) # backend_progress bid t1) @ (t2, g) # [(t3, h)]"
    using assms(1) by simp
  from status_at_cases [OF c, of t2 s] show ?thesis
    using assms(2-4) by auto
qed

text \<open>
  The steps of \<^verbatim>\<open>handleBackendChange\<close>, its own effects taken alone (\<open>state_at T evs s\<close>
  holds no effect of another operation, so no timer of an earlier one is still to fire).
  It first sets the phase to saving and calls \<^verbatim>\<open>setBackendOverride\<close>; the phase is
  saving until that call returns at \<open>t1\<close>. When it fails the phase is error, with the
  failure's message or a default text when it has none, and no other call is made. When
  it succeeds the phase is restarting from \<open>t1\<close> until \<^verbatim>\<open>restartWithOverrides\<close> returns
  at \<open>t2\<close>; when that fails the phase at \<open>t2\<close> is error in the same way, and the two
  calls are all (no call takes the override back); when it succeeds the phase at \<open>t2\<close>
  is success and the calls of \<^verbatim>\<open>loadConfigurationInfo\<close> follow.
\<close>

lemma change_backend_steps:
  assumes "evs = handleBackendChange (Some r) bid t0"
    and "ov = (if bid = ''auto'' then None else Some bid)"
    and "t1 = t0 + delay (setBackendOverride r)"
    and "t2 = t1 + delay (restartWithOverrides r)"
  shows
    "hd (calls evs) = SetBackendOverride ov \<and>
     (\<forall>T. t0 \<le> T \<and> T < t1 \<longrightarrow>
        operationStatus (state_at T evs s)
          = \<lparr>type = Saving, message = ''Updating backend selection...''\<rparr>) \<and>
     (\<forall>e. outcome (setBackendOverride r) = Rejected e \<longrightarrow>
        calls evs = [SetBackendOverride ov] \<and>
        operationStatus (state_at t1 evs s)
          = \<lparr>type = Error, message = caught e ''Failed to change backend''\<rparr>) \<and>
     (\<forall>res. outcome (setBackendOverride r) = Resolved res \<and> \<not> success res \<longrightarrow>
        calls evs = [SetBackendOverride ov] \<and>
        operationStatus (state_at t1 evs s)
          = \<lparr>type = Error, message = or_default (result.error res) ''Failed to set backend''\<rparr>) \<and>
     (\<forall>res. outcome (setBackendOverride r) = Resolved res \<and> success res \<longrightarrow>
        (\<forall>T. t1 \<le> T \<and> T < t2 \<longrightarrow> type (operationStatus (state_at T evs s)) = Restarting) \<and>
        (\<forall>e. outcome (restartWithOverrides r) = Rejected e \<longrightarrow>
           calls evs = [SetBackendOverride ov, RestartWithOverrides] \<and>
           operationStatus (state_at t2 evs s)
             = \<lparr>type = Error, message = caught e ''Failed to change backend''\<rparr>) \<and>
        (\<forall>res2. outcome (restartWithOverrides r) = Resolved res2 \<and> \<not> success res2 \<longrightarrow>
           calls evs = [SetBackendOverride ov, RestartWithOverrides] \<and>
           operationStatus (state_at t2 evs s)
             = \<lparr>type = Error,
                 message = or_default (result.error res2)
                             ''Failed to restart service with new backend''\<rparr>) \<and>
        (\<forall>res2. outcome (restartWithOverrides r) = Resolved res2 \<and> success res2 \<longrightarrow>
           take 3 (calls evs) = [SetBackendOverride ov, RestartWithOverrides, GetConfigurationInfo] \<and>
           calls evs = SetBackendOverride ov # RestartWithOverrides #
                       calls (fst (loadConfigurationInfo (Some r) t2)) \<and>
           operationStatus (state_at t2 evs s)
             = \<lparr>type = Success,
                 message = check_mark @ '' Backend changed to '' @
                           backend_label ''Auto-detect'' bid @ '' and service restarted!''\<rparr>))"
proof -
  note le = load_end [of t2 "Some r"]
  have first: "hd (calls evs) = SetBackendOverride ov"
    unfolding assms(1,2)
    by (simp add: handleBackendChange_def calls_unfold split_beta)
  have saving: "\<forall>T. t0 \<le> T \<and> T < t1 \<longrightarrow>
        operationStatus (state_at T evs s)
          = \<lparr>type = Saving, message = ''Updating backend selection...''\<rparr>"
    unfolding assms(1,3) using saving_until_set by blast
  have c1: "calls evs = [SetBackendOverride ov] \<and>
        operationStatus (state_at t1 evs s)
          = \<lparr>type = Error, message = caught e ''Failed to change backend''\<rparr>"
    if "outcome (setBackendOverride r) = Rejected e" for e
  proof -
    have "status_changes evs =
        [(t0, \<lparr>type = Saving, message = ''Updating backend selection...''\<rparr>)] @
        (t1, \<lparr>type = Error, message = caught e ''Failed to change backend''\<rparr>) #
        [(t1 + 5000, \<lparr>type = Idle, message = []\<rparr>)]"
      unfolding assms(1,3) by (simp add: set_rejected(1) [OF that])
    from status_at_cases [OF this, of t1 s] show ?thesis
      unfolding assms(1,2) by (auto simp: assms(3) set_rejected(2) [OF that])
  qed
  have c2: "calls evs = [SetBackendOverride ov] \<and>
        operationStatus (state_at t1 evs s)
          = \<lparr>type = Error, message = or_default (result.error res) ''Failed to set backend''\<rparr>"
    if "outcome (setBackendOverride r) = Resolved res" "\<not> success res" for res
  proof -
    have "status_changes evs =
        [(t0, \<lparr>type = Saving, message = ''Updating backend selection...''\<rparr>)] @
        (t1, \<lparr>type = Error, message = or_default (result.error res) ''Failed to set backend''\<rparr>) #
        [(t1 + 5000, \<lparr>type = Idle, message = []\<rparr>)]"
      unfolding assms(1,3) by (simp add: set_refused(1) [OF that])
    from status_at_cases [OF this, of t1 s] show ?thesis
      unfolding assms(1,2) by (auto simp: assms(3) set_refused(2) [OF that])
  qed
  have c3: "\<forall>T. t1 \<le> T \<and> T < t2 \<longrightarrow> type (operationStatus (state_at T evs s)) = Restarting"
    if "outcome (setBackendOverride r) = Resolved res" "success res" for res
    unfolding assms(1,3,4) using restarting_until_restarted [OF that] by blast
  have c4: "calls evs = [SetBackendOverride ov, RestartWithOverrides] \<and>
           operationStatus (state_at t2 evs s)
             = \<lparr>type = Error, message = caught e ''Failed to change backend''\<rparr>"
    if "outcome (setBackendOverride r) = Resolved res" "success res"
      "outcome (restartWithOverrides r) = Rejected e" for res e
  proof -
    have "status_changes evs = (t0, \<lparr>type = Saving, message = ''Updating backend selection...''\<rparr>) #
        backend_progress bid t1 @
        [(t2, \<lparr>type = Error, message = caught e ''Failed to change backend''\<rparr>),
         (t2 + 5000, \<lparr>type = Idle, message = []\<rparr>)]"
      unfolding assms(1,3,4) by (simp add: restart_rejected(1) [OF that])
    then have "operationStatus (state_at t2 evs s)
             = \<lparr>type = Error, message = caught e ''Failed to change backend''\<rparr>"
      by (rule at_restart_return) (simp_all add: assms(3,4))
    then show ?thesis
      unfolding assms(1,2) by (simp add: restart_rejected(2) [OF that])
  qed
  have c5: "calls evs = [SetBackendOverride ov, RestartWithOverrides] \<and>
           operationStatus (state_at t2 evs s)
             = \<lparr>type = Error,
                 message = or_default (result.error res2)
                             ''Failed to restart service with new backend''\<rparr>"
    if "outcome (setBackendOverride r) = Resolved res" "success res"
      "outcome (restartWithOverrides r) = Resolved res2" "\<not> success res2" for res res2
  proof -
    have "status_changes evs = (t0, \<lparr>type = Saving, message = ''Updating backend selection...''\<rparr>) #
        backend_progress bid t1 @
        [(t2, \<lparr>type = Error, message = or_default (result.error res2)
                             ''Failed to restart service with new backend''\<rparr>),
         (t2 + 5000, \<lparr>type = Idle, message = []\<rparr>)]"
      unfolding assms(1,3,4) by (simp add: restart_refused(1) [OF that])
    then have "operationStatus (state_at t2 evs s)
             = \<lparr>type = Error, message = or_default (result.error res2)
                             ''Failed to restart service with new backend''\<rparr>"
      by (rule at_restart_return) (simp_all add: assms(3,4))
    then show ?thesis
      unfolding assms(1,2) by (simp add: restart_refused(2) [OF that])
  qed
  have c6: "take 3 (calls evs) = [SetBackendOverride ov, RestartWithOverrides, GetConfigurationInfo] \<and>
           calls evs = SetBackendOverride ov # RestartWithOverrides #
                       calls (fst (loadConfigurationInfo (Some r) t2)) \<and>
           operationStatus (state_at t2 evs s)
             = \<lparr>type = Success,
                 message = check_mark @ '' Backend changed to '' @
                           backend_label ''Auto-detect'' bid @ '' and service restarted!''\<rparr>"
    if "outcome (setBackendOverride r) = Resolved res" "success res"
      "outcome (restartWithOverrides r) = Resolved res2" "success res2" for res res2
  proof -
    have "status_changes evs = (t0, \<lparr>type = Saving, message = ''Updating backend selection...''\<rparr>) #
        backend_progress bid t1 @
        [(t2, \<lparr>type = Success, message = changed_message bid\<rparr>),
         (snd (loadConfigurationInfo (Some r) t2) + 3000, \<lparr>type = Idle, message = []\<rparr>)]"
      unfolding assms(1,3,4) by (simp add: restart_ok(1) [OF that])
    then have "operationStatus (state_at t2 evs s) = \<lparr>type = Success, message = changed_message bid\<rparr>"
      by (rule at_restart_return) (use le in \<open>simp_all add: assms(3,4)\<close>)
    moreover have "calls evs = SetBackendOverride ov # RestartWithOverrides #
                       calls (fst (loadConfigurationInfo (Some r) t2))"
      unfolding assms(1,2,3,4) by (simp add: restart_ok(2) [OF that])
    moreover obtain rest where "calls (fst (loadConfigurationInfo (Some r) t2)) = GetConfigurationInfo # rest"
      using calls_load by blast
    ultimately show ?thesis
      by (simp add: changed_message_def)
  qed
  show ?thesis
    using first saving c1 c2 c3 c4 c5 c6 by blast
qed

lemma change_backend_steps_example:
  "hd (calls (handleBackendChange (Some llama) ''cuda'' 0)) = SetBackendOverride (Some ''cuda'') \<and>
   operationStatus (state_at 10 (handleBackendChange (Some llama) ''cuda'' 0) loaded)
     = \<lparr>type = Saving, message = ''Updating backend selection...''\<rparr> \<and>
   type (operationStatus (state_at 300 (handleBackendChange (Some llama) ''cuda'' 0) loaded)) = Restarting \<and>
   operationStatus (state_at 550 (handleBackendChange (Some llama) ''cuda'' 0) loaded)
     = \<lparr>type = Success, message = check_mark @ '' Backend changed to cuda and service restarted!''\<rparr> \<and>
   take 3 (calls (handleBackendChange (Some llama) ''cuda'' 0))
     = [SetBackendOverride (Some ''cuda''), RestartWithOverrides, GetConfigurationInfo] \<and>
   calls (handleBackendChange (Some set_down) ''cuda'' 0) = [SetBackendOverride (Some ''cuda'')] \<and>
   operationStatus (state_at 50 (handleBackendChange (Some set_down) ''cuda'' 0) loaded)
     = \<lparr>type = Error, message = ''unknown backend''\<rparr> \<and>
   calls (handleBackendChange (Some restart_down) ''cuda'' 0)
     = [SetBackendOverride (Some ''cuda''), RestartWithOverrides] \<and>
   operationStatus (state_at 550 (handleBackendChange (Some restart_down) ''cuda'' 0) loaded)
     = \<lparr>type = Error, message = ''port 8080 in use''\<rparr>"
proof -
  let ?yes = "\<lparr>success = True, error = None, payload = ()\<rparr>"
  have ov: "Some ''cuda'' = (if ''cuda'' = ''auto'' then None else Some ''cuda'')" by simp
  have a: "outcome (setBackendOverride llama) = Resolved ?yes \<and> success ?yes"
    and b: "outcome (restartWithOverrides llama) = Resolved ?yes \<and> success ?yes"
    and ta: "50 = 0 + delay (setBackendOverride llama)"
    and tb: "550 = 50 + delay (restartWithOverrides llama)"
    by (simp_all add: llama_def ok_def)
  note ok = change_backend_steps [OF refl ov ta tb, of loaded]
  let ?no1 = "\<lparr>success = False, error = Some ''unknown backend'', payload = ()\<rparr>"
  have c: "outcome (setBackendOverride set_down) = Resolved ?no1 \<and> \<not> success ?no1"
    and tc: "50 = 0 + delay (setBackendOverride set_down)"
    and td: "550 = 50 + delay (restartWithOverrides set_down)"
    by (simp_all add: set_down_def llama_def ok_def refused_def)
  note no1 = change_backend_steps [OF refl ov tc td, of loaded]
  let ?no2 = "\<lparr>success = False, error = Some ''port 8080 in use'', payload = ()\<rparr>"
  have d: "outcome (setBackendOverride restart_down) = Resolved ?yes \<and> success ?yes"
    and e: "outcome (restartWithOverrides restart_down) = Resolved ?no2 \<and> \<not> success ?no2"
    and te: "50 = 0 + delay (setBackendOverride restart_down)"
    and tf: "550 = 50 + delay (restartWithOverrides restart_down)"
    by (simp_all add: restart_down_def llama_def ok_def refused_def)
  note no2 = change_backend_steps [OF refl ov te tf, of loaded]
  have 1: "hd (calls (handleBackendChange (Some llama) ''cuda'' 0)) = SetBackendOverride (Some ''cuda'')"
    using ok by blast
  have 2: "operationStatus (state_at 10 (handleBackendChange (Some llama) ''cuda'' 0) loaded)
     = \<lparr>type = Saving, message = ''Updating backend selection...''\<rparr>"
    using ok by simp
  have 3: "type (operationStatus (state_at 300 (handleBackendChange (Some llama) ''cuda'' 0) loaded)) = Restarting"
    using ok a by simp
  have 4: "operationStatus (state_at 550 (handleBackendChange (Some llama) ''cuda'' 0) loaded)
     = \<lparr>type = Success, message = check_mark @ '' Backend changed to cuda and service restarted!''\<rparr>"
    using ok a b by (simp add: backend_label_def)
  have 5: "take 3 (calls (handleBackendChange (Some llama) ''cuda'' 0))
     = [SetBackendOverride (Some ''cuda''), RestartWithOverrides, GetConfigurationInfo]"
    using ok a b by blast
  have 6: "calls (handleBackendChange (Some set_down) ''cuda'' 0) = [SetBackendOverride (Some ''cuda'')]"
    and 7: "operationStatus (state_at 50 (handleBackendChange (Some set_down) ''cuda'' 0) loaded)
     = \<lparr>type = Error, message = ''unknown backend''\<rparr>"
    using no1 c by simp_all
  have 8: "calls (handleBackendChange (Some restart_down) ''cuda'' 0)
     = [SetBackendOverride (Some ''cuda''), RestartWithOverrides]"
    and 9: "operationStatus (state_at 550 (handleBackendChange (Some restart_down) ''cuda'' 0) loaded)
     = \<lparr>type = Error, message = ''port 8080 in use''\<rparr>"
    using no2 d e by simp_all
  show ?thesis
    using 1 2 3 4 5 6 7 8 9 by blast
qed

text \<open>
  A second change of the backend, while a timer of the first is still to fire. The
  first change ends at 4500 and its status is cleared at 7530; its last progress timer,
  set at 1000 for ten seconds, is never cancelled. At 10500 the state is again the
  loaded one, with the phase idle.
\<close>

lemma slow_restart_fields:
  "setBackendOverride slow_restart = ok () 1000"
  "restartWithOverrides slow_restart = ok () 3500"
  "getConfigurationInfo slow_restart = ok two_backends 20"
  "getModelConfigurations slow_restart = Some (ok (Some [model_m1, model_m2]) 10)"
  by (simp_all add: slow_restart_def llama_def)

lemma reload_events:
  "fst (loadConfigurationInfo (Some slow_restart) 4500) =
     [(4500, SetLoading True), (4500, SetError None), (4500, Call GetConfigurationInfo),
      (4520, SetConfigInfo two_backends), (4520, SetSelectedBackend ''auto''),
      (4520, SetActualBackend ''cpu''), (4520, SetJsonConfig (JSON_stringify document 2)),
      (4520, Call GetModelConfigurations), (4530, SetModelConfigs [model_m1, model_m2]),
      (4530, SetLoading False)]"
  by (simp add: loadConfigurationInfo_def loadModelConfigurations_def slow_restart_fields ok_def
        two_backends_def document_def)

lemma earlier_events:
  "earlier_change =
     [(0, status Saving ''Updating backend selection...''),
      (0, Call (SetBackendOverride (Some ''cuda''))),
      (1000, SetSelectedBackend ''cuda''),
      (1000, status Restarting ''Stopping service...''),
      (1000, timer Restarting ''Applying backend changes...'' 1000),
      (1000, timer Restarting ''Starting service with cuda backend...'' 3000),
      (1000, timer Restarting ''Initializing service... (this may take a moment)'' 5000),
      (1000, timer Restarting ''Service startup in progress... (almost ready)'' 10000),
      (1000, Call RestartWithOverrides),
      (4500, status Success (check_mark @ '' Backend changed to cuda and service restarted!''))] @
     fst (loadConfigurationInfo (Some slow_restart) 4500) @
     [(4530, timer Idle [] 3000)]"
  by (simp add: earlier_change_def click_def loaded_def initial_def isOperationInProgress_def
        handleBackendChange_def slow_restart_fields ok_def backend_label_def split_beta
        loadConfigurationInfo_def loadModelConfigurations_def)

lemma before_later: "state_at 10500 earlier_change loaded = loaded"
  by (simp add: earlier_events reload_events state_at_def timeline_def status_def timer_def
        loaded_def initial_def)

lemma later_events: "later_change = handleBackendChange (Some slow_restart) ''cpu'' 10500"
  unfolding later_change_def before_later
  by (simp add: click_def loaded_def initial_def isOperationInProgress_def)

lemma changes_earlier_later:
  "status_changes (earlier_change @ later_change) =
     [(0, \<lparr>type = Saving, message = ''Updating backend selection...''\<rparr>),
      (1000, \<lparr>type = Restarting, message = ''Stopping service...''\<rparr>),
      (2000, \<lparr>type = Restarting, message = ''Applying backend changes...''\<rparr>),
      (4000, \<lparr>type = Restarting, message = ''Starting service with cuda backend...''\<rparr>),
      (6000, \<lparr>type = Restarting, message = ''Initializing service... (this may take a moment)''\<rparr>),
      (11000, \<lparr>type = Restarting, message = ''Service startup in progress... (almost ready)''\<rparr>),
      (4500, \<lparr>type = Success, message = check_mark @ '' Backend changed to cuda and service restarted!''\<rparr>),
      (7530, \<lparr>type = Idle, message = []\<rparr>),
      (10500, \<lparr>type = Saving, message = ''Updating backend selection...''\<rparr>),
      (11500, \<lparr>type = Restarting, message = ''Stopping service...''\<rparr>),
      (12500, \<lparr>type = Restarting, message = ''Applying backend changes...''\<rparr>),
      (14500, \<lparr>type = Restarting, message = ''Starting service with cpu backend...''\<rparr>),
      (16500, \<lparr>type = Restarting, message = ''Initializing service... (this may take a moment)''\<rparr>),
      (21500, \<lparr>type = Restarting, message = ''Service startup in progress... (almost ready)''\<rparr>),
      (15000, \<lparr>type = Success, message = check_mark @ '' Backend changed to cpu and service restarted!''\<rparr>),
      (18030, \<lparr>type = Idle, message = []\<rparr>)]"
proof -
  have l: "snd (loadConfigurationInfo (Some slow_restart) t) = t + 30" for t
    by (simp add: loadConfigurationInfo_def loadModelConfigurations_def slow_restart_fields ok_def
          Let_def split_beta)
  show ?thesis
    by (simp add: status_changes_append earlier_events later_events reload_events
          handleBackendChange_def changes_unfold l split_beta slow_restart_fields ok_def
          backend_label_def status_changes_load)
qed

text \<open>
  C4 (from idle, the phase goes from idle to saving while \<^verbatim>\<open>setBackendOverride\<close> is
  called, and to restarting on its success), on the code: the second change starts at
  10500 from the idle phase, sets the phase to saving and calls \<^verbatim>\<open>setBackendOverride\<close>,
  which returns at 11500. At 11000 the timer left by the first change fires: from then
  until the call returns the phase is restarting, with the message of the first change,
  while the override is still being set. By itself the second change would show saving
  throughout.
\<close>

theorem pending_timer_overwrites_saving:
  "state_at 10500 earlier_change loaded = loaded \<and>
   type (operationStatus loaded) = Idle \<and>
   take 2 later_change = [(10500, status Saving ''Updating backend selection...''),
                          (10500, Call (SetBackendOverride (Some ''cpu'')))] \<and>
   delay (setBackendOverride slow_restart) = 1000 \<and>
   operationStatus (state_at 10500 (earlier_change @ later_change) loaded)
     = \<lparr>type = Saving, message = ''Updating backend selection...''\<rparr> \<and>
   operationStatus (state_at 11000 (earlier_change @ later_change) loaded)
     = \<lparr>type = Restarting, message = ''Service startup in progress... (almost ready)''\<rparr> \<and>
   operationStatus (state_at 11499 (earlier_change @ later_change) loaded)
     = \<lparr>type = Restarting, message = ''Service startup in progress... (almost ready)''\<rparr> \<and>
   operationStatus (state_at 11499 later_change loaded)
     = \<lparr>type = Saving, message = ''Updating backend selection...''\<rparr>"
proof -
  have 1: "take 2 later_change = [(10500, status Saving ''Updating backend selection...''),
                          (10500, Call (SetBackendOverride (Some ''cpu'')))]"
    by (simp add: later_events handleBackendChange_def slow_restart_fields ok_def split_beta)
  have 2: "type (operationStatus loaded) = Idle"
    by (simp add: loaded_def initial_def)
  have 3: "operationStatus (state_at 11499 later_change loaded)
     = \<lparr>type = Saving, message = ''Updating backend selection...''\<rparr>"
    unfolding later_events
    by (rule saving_until_set) (simp_all add: slow_restart_fields ok_def)
  have 4: "operationStatus (state_at 10500 (earlier_change @ later_change) loaded)
       = \<lparr>type = Saving, message = ''Updating backend selection...''\<rparr> \<and>
     operationStatus (state_at 11000 (earlier_change @ later_change) loaded)
       = \<lparr>type = Restarting, message = ''Service startup in progress... (almost ready)''\<rparr> \<and>
     operationStatus (state_at 11499 (earlier_change @ later_change) loaded)
       = \<lparr>type = Restarting, message = ''Service startup in progress... (almost ready)''\<rparr>"
    by (simp add: status_at changes_earlier_later)
  have 5: "delay (setBackendOverride slow_restart) = 1000"
    by (simp add: slow_restart_fields ok_def)
  show ?thesis
    using before_later 1 2 3 4 5 by blast
qed

section \<open>The progress timers\<close>

text \<open>
  Whenever both calls succeed and the reload is over less than seven seconds after the
  override was set, the last progress message is the last status change of all.
\<close>

lemma last_progress_message_stays:
  assumes "outcome (setBackendOverride r) = Resolved res" "success res"
    and "outcome (restartWithOverrides r) = Resolved res2" "success res2"
    and "snd (loadConfigurationInfo (Some r)
                (t0 + delay (setBackendOverride r) + delay (restartWithOverrides r))) + 3000
           < t0 + delay (setBackendOverride r) + 10000"
  shows "operationStatus (run (handleBackendChange (Some r) bid t0) s)
           = \<lparr>type = Restarting, message = ''Service startup in progress... (almost ready)''\<rparr>"
proof -
  define t1 where "t1 = t0 + delay (setBackendOverride r)"
  define t2 where "t2 = t1 + delay (restartWithOverrides r)"
  note le = load_end [of t2 "Some r"]
  have "status_changes (handleBackendChange (Some r) bid t0) =
      ((t0, \<lparr>type = Saving, message = ''Updating backend selection...''\<rparr>) #
       butlast (backend_progress bid t1)) @
      (t1 + 10000,
       \<lparr>type = Restarting, message = ''Service startup in progress... (almost ready)''\<rparr>) #
      [(t2, \<lparr>type = Success, message = changed_message bid\<rparr>),
       (snd (loadConfigurationInfo (Some r) t2) + 3000, \<lparr>type = Idle, message = []\<rparr>)]"
    by (simp add: restart_ok(1) [OF assms(1-4)] backend_progress_def t1_def t2_def)
  from status_run_cases [OF this, of s] show ?thesis
    using le assms(5) by (auto simp: t1_def t2_def backend_progress_def)
qed

text \<open>
  C2, on the code: no timer is ever cancelled; the three handlers that set progress
  timers, and only they, end in an empty \<^verbatim>\<open>finally\<close> block. On the control plane
  \<open>llama\<close> the restart returns after half a second, and the first progress timer, one
  second after it was set, puts the phase back from success to restarting. After
  \<^verbatim>\<open>handleBackendChange\<close> and after \<^verbatim>\<open>handleRestartWithOverrides\<close> the last timer fires
  after the one that clears the status, so the panel stays in the phase restarting.
\<close>

theorem stale_progress_message_overwrites_success:
  "operationStatus (state_at 550 (handleBackendChange (Some llama) ''cuda'' 0) loaded)
     = \<lparr>type = Success, message = check_mark @ '' Backend changed to cuda and service restarted!''\<rparr> \<and>
   operationStatus (state_at 1050 (handleBackendChange (Some llama) ''cuda'' 0) loaded)
     = \<lparr>type = Restarting, message = ''Applying backend changes...''\<rparr> \<and>
   operationStatus (run (handleBackendChange (Some llama) ''cuda'' 0) loaded)
     = \<lparr>type = Restarting, message = ''Service startup in progress... (almost ready)''\<rparr> \<and>
   operationStatus (state_at 500 (handleRestartWithOverrides (Some llama) 0) loaded)
     = \<lparr>type = Success, message = ''Service restarted successfully!''\<rparr> \<and>
   operationStatus (state_at 1000 (handleRestartWithOverrides (Some llama) 0) loaded)
     = \<lparr>type = Restarting, message = ''Applying configuration...''\<rparr> \<and>
   operationStatus (run (handleRestartWithOverrides (Some llama) 0) loaded)
     = \<lparr>type = Restarting, message = ''Starting service with new settings...''\<rparr> \<and>
   operationStatus (state_at 700 (saveConfigurationAndRestart (Some llama) loaded 0) loaded)
     = \<lparr>type = Success,
         message = check_mark @ '' Configuration saved and service restarted successfully!''\<rparr> \<and>
   operationStatus (state_at 1000 (saveConfigurationAndRestart (Some llama) loaded 0) loaded)
     = \<lparr>type = Restarting, message = ''Configuration saved, restarting service...''\<rparr>"
proof -
  have jl: "jsonError loaded = None" by (simp add: loaded_def initial_def)
  have a: "status_changes (handleBackendChange (Some llama) ''cuda'' 0) =
    [(0, \<lparr>type = Saving, message = ''Updating backend selection...''\<rparr>),
     (50, \<lparr>type = Restarting, message = ''Stopping service...''\<rparr>),
     (1050, \<lparr>type = Restarting, message = ''Applying backend changes...''\<rparr>),
     (3050, \<lparr>type = Restarting, message = ''Starting service with cuda backend...''\<rparr>),
     (5050, \<lparr>type = Restarting, message = ''Initializing service... (this may take a moment)''\<rparr>),
     (10050, \<lparr>type = Restarting, message = ''Service startup in progress... (almost ready)''\<rparr>),
     (550, \<lparr>type = Success, message = check_mark @ '' Backend changed to cuda and service restarted!''\<rparr>),
     (3580, \<lparr>type = Idle, message = []\<rparr>)]"
    by (simp add: handleBackendChange_def changes_unfold load_end_llama split_beta llama_fields ok_def
          backend_label_def)
  have b: "status_changes (handleRestartWithOverrides (Some llama) 0) =
    [(0, \<lparr>type = Restarting, message = ''Stopping service...''\<rparr>),
     (1000, \<lparr>type = Restarting, message = ''Applying configuration...''\<rparr>),
     (3000, \<lparr>type = Restarting, message = ''Starting service with new settings...''\<rparr>),
     (500, \<lparr>type = Success, message = ''Service restarted successfully!''\<rparr>),
     (2530, \<lparr>type = Idle, message = []\<rparr>)]"
    by (simp add: handleRestartWithOverrides_def changes_unfold load_end_llama split_beta llama_fields ok_def)
  have c: "status_changes (saveConfigurationAndRestart (Some llama) loaded 0) =
    [(0, \<lparr>type = Saving, message = ''Saving configuration...''\<rparr>),
     (1000, \<lparr>type = Restarting, message = ''Configuration saved, restarting service...''\<rparr>),
     (3000, \<lparr>type = Restarting, message = ''Applying new configuration...''\<rparr>),
     (700, \<lparr>type = Success,
         message = check_mark @ '' Configuration saved and service restarted successfully!''\<rparr>),
     (3730, \<lparr>type = Idle, message = []\<rparr>)]"
    by (simp add: saveConfigurationAndRestart_def jl changes_unfold load_end_llama split_beta llama_fields ok_def)
  show ?thesis
    by (simp add: status_at status_run a b c)
qed

section \<open>Operations in flight\<close>

text \<open>
  The guard against a second operation: while an operation is in flight the buttons of
  the seven intents are disabled, so a click on one of them has no effect at all: no
  status change, no remote call. The guard is in the buttons only: no handler reads the
  status.
\<close>

lemma busy_controls_are_disabled:
  "(isOperationInProgress s \<longrightarrow>
      click ls i s t = [] \<and> calls (click ls i s t) = [] \<and> run (click ls i s t) s = s) \<and>
   handler ls i (s\<lparr>operationStatus := st\<rparr>) t = handler ls i s t"
proof -
  have "disabled i s" if "isOperationInProgress s"
    using that by (cases i) simp_all
  moreover have "handler ls i (s\<lparr>operationStatus := st\<rparr>) t = handler ls i s t"
    by (cases i)
       (simp_all add: saveConfiguration_def saveConfigurationAndRestart_def
          saveModelConfiguration_def saveAllModelConfigurations_def)
  ultimately show ?thesis
    by (simp add: click_def calls_Nil run_def timeline_def)
qed

lemma busy_controls_example:
  "isOperationInProgress busy \<and> click (Some llama) (ChangeBackend ''cuda'') busy 0 = []"
  using busy_controls_are_disabled [of busy "Some llama" "ChangeBackend ''cuda''" 0]
  by (simp add: busy_def isOperationInProgress_def)

text \<open>
  The three clicks of the example. The model save of the first click is over at 30 and
  leaves a timer that clears the status at 2030. The second click, at 1000, starts a
  reconfiguration, whose call returns at 6000. The timer of the save is never withdrawn.
\<close>

lemma slow_fields:
  "saveModelConfiguration' slow_scan = ok () 30"
  "regenerateConfig slow_scan = ok 2 5000"
  "restartWithOverrides slow_scan = ok () 500"
  "getConfigurationInfo slow_scan = ok two_backends 20"
  "getModelConfigurations slow_scan = Some (ok (Some [model_m1, model_m2]) 10)"
  by (simp_all add: slow_scan_def llama_def)

lemma first_events:
  "first_click =
     [(0, status Saving ''Saving configuration for m1...''),
      (0, Call (SaveModelConfiguration ''m1'' model_m1)),
      (30, status Success (check_mark @ '' Configuration saved for m1'')),
      (30, SetHasUnsavedChanges False),
      (30, timer Idle [] 2000)]"
  by (simp add: first_click_def click_def loaded_def initial_def isOperationInProgress_def
        saveModelConfiguration_def has_name_def model_m1_def slow_fields ok_def)

lemma after_first:
  "state_at 1000 first_click loaded
     = loaded\<lparr>operationStatus := \<lparr>type = Success, message = check_mark @ '' Configuration saved for m1''\<rparr>\<rparr>"
  by (simp add: first_events state_at_def timeline_def status_def timer_def loaded_def initial_def)

lemma second_events: "second_click = handleReconfigure (Some slow_scan) 1000"
  unfolding second_click_def after_first
  by (simp add: click_def loaded_def initial_def isOperationInProgress_def)

lemma reload_end_slow: "snd (loadConfigurationInfo (Some slow_scan) t) = t + 30"
  by (simp add: loadConfigurationInfo_def loadModelConfigurations_def slow_fields ok_def
        Let_def split_beta)

lemma before_third:
  "state_at 2500 (first_click @ second_click) loaded
     = loaded\<lparr>operationStatus := \<lparr>type = Idle, message = []\<rparr>\<rparr>"
proof -
  have r: "\<forall>e \<in> set (map occurs (fst (loadConfigurationInfo (Some slow_scan) 6000))). 6000 \<le> fst e"
    by (auto simp: loadConfigurationInfo_def loadModelConfigurations_def slow_fields ok_def Let_def)
  have "filter (\<lambda>e. fst e \<le> 2500) (timeline (first_click @ second_click))
      = sort_key fst (filter (\<lambda>e. fst e \<le> 2500) (map occurs (first_click @ second_click)))"
    by (simp add: timeline_def filter_sort)
  also have "filter (\<lambda>e. fst e \<le> 2500)
               (map occurs (fst (loadConfigurationInfo (Some slow_scan) 6000))) = []"
    using r by (auto simp: filter_empty_conv)
  then have "filter (\<lambda>e. fst e \<le> 2500) (map occurs (first_click @ second_click))
      = [(0, status Saving ''Saving configuration for m1...''),
         (0, Call (SaveModelConfiguration ''m1'' model_m1)),
         (30, status Success (check_mark @ '' Configuration saved for m1'')),
         (30, SetHasUnsavedChanges False),
         (2030, status Idle []),
         (1000, status Reconfiguring ''Regenerating configuration...''),
         (1000, Call RegenerateConfig)]"
    by (simp add: first_events second_events handleReconfigure_def slow_fields ok_def split_beta
          reload_end_slow status_def timer_def)
  finally show ?thesis
    by (simp add: state_at_def status_def loaded_def initial_def)
qed

lemma third_events: "third_click = handleRestartWithOverrides (Some slow_scan) 2500"
  unfolding third_click_def before_third
  by (simp add: click_def loaded_def initial_def isOperationInProgress_def)

lemma changes_three_clicks:
  "status_changes (first_click @ second_click @ third_click) =
     [(0, \<lparr>type = Saving, message = ''Saving configuration for m1...''\<rparr>),
      (30, \<lparr>type = Success, message = check_mark @ '' Configuration saved for m1''\<rparr>),
      (2030, \<lparr>type = Idle, message = []\<rparr>),
      (1000, \<lparr>type = Reconfiguring, message = ''Regenerating configuration...''\<rparr>),
      (6000, \<lparr>type = Success, message = ''Configuration regenerated with 2 models''\<rparr>),
      (8030, \<lparr>type = Idle, message = []\<rparr>),
      (2500, \<lparr>type = Restarting, message = ''Stopping service...''\<rparr>),
      (3500, \<lparr>type = Restarting, message = ''Applying configuration...''\<rparr>),
      (5500, \<lparr>type = Restarting, message = ''Starting service with new settings...''\<rparr>),
      (3000, \<lparr>type = Success, message = ''Service restarted successfully!''\<rparr>),
      (5030, \<lparr>type = Idle, message = []\<rparr>)]"
  by (simp add: status_changes_append first_events second_events third_events
        handleReconfigure_def handleRestartWithOverrides_def changes_unfold reload_end_slow
        split_beta slow_fields ok_def status_changes_load NumberToString_def digit_char_def)

text \<open>
  C1 (while an operation is in flight a new intent is rejected, so that at most one
  operation is ever active), on the code: the reconfiguration of the second click starts
  at 1000 and its call is pending until 6000. At 2030 the timer of the earlier save sets
  the phase to idle, while that call is pending. So the third click, at 2500, finds the
  restart button enabled: the phase goes to restarting and \<^verbatim>\<open>restartWithOverrides\<close> is
  called while the reconfiguration is in flight.
\<close>

theorem operations_overlap:
  "take 2 second_click = [(1000, status Reconfiguring ''Regenerating configuration...''),
                          (1000, Call RegenerateConfig)] \<and>
   delay (regenerateConfig slow_scan) = 5000 \<and>
   (6000, status Success ''Configuration regenerated with 2 models'') \<in> set second_click \<and>
   operationStatus (state_at 2029 (first_click @ second_click) loaded)
     = \<lparr>type = Reconfiguring, message = ''Regenerating configuration...''\<rparr> \<and>
   operationStatus (state_at 2030 (first_click @ second_click) loaded)
     = \<lparr>type = Idle, message = []\<rparr> \<and>
   state_at 2500 (first_click @ second_click) loaded
     = loaded\<lparr>operationStatus := \<lparr>type = Idle, message = []\<rparr>\<rparr> \<and>
   take 4 third_click = [(2500, status Restarting ''Stopping service...''),
                         (2500, timer Restarting ''Applying configuration...'' 1000),
                         (2500, timer Restarting ''Starting service with new settings...'' 3000),
                         (2500, Call RestartWithOverrides)] \<and>
   operationStatus (state_at 2500 (first_click @ second_click @ third_click) loaded)
     = \<lparr>type = Restarting, message = ''Stopping service...''\<rparr>"
proof -
  have c: "status_changes (first_click @ second_click) =
     [(0, \<lparr>type = Saving, message = ''Saving configuration for m1...''\<rparr>),
      (30, \<lparr>type = Success, message = check_mark @ '' Configuration saved for m1''\<rparr>),
      (2030, \<lparr>type = Idle, message = []\<rparr>),
      (1000, \<lparr>type = Reconfiguring, message = ''Regenerating configuration...''\<rparr>),
      (6000, \<lparr>type = Success, message = ''Configuration regenerated with 2 models''\<rparr>),
      (8030, \<lparr>type = Idle, message = []\<rparr>)]"
    using changes_three_clicks
    by (simp add: status_changes_append third_events handleRestartWithOverrides_def
          changes_unfold split_beta slow_fields ok_def)
  have 1: "take 2 second_click = [(1000, status Reconfiguring ''Regenerating configuration...''),
                          (1000, Call RegenerateConfig)] \<and>
      (6000, status Success ''Configuration regenerated with 2 models'') \<in> set second_click"
    by (simp add: second_events handleReconfigure_def slow_fields ok_def split_beta
          NumberToString_def digit_char_def)
  have 3: "take 4 third_click = [(2500, status Restarting ''Stopping service...''),
                         (2500, timer Restarting ''Applying configuration...'' 1000),
                         (2500, timer Restarting ''Starting service with new settings...'' 3000),
                         (2500, Call RestartWithOverrides)]"
    by (simp add: third_events handleRestartWithOverrides_def slow_fields ok_def split_beta)
  have 4: "operationStatus (state_at 2029 (first_click @ second_click) loaded)
       = \<lparr>type = Reconfiguring, message = ''Regenerating configuration...''\<rparr> \<and>
     operationStatus (state_at 2030 (first_click @ second_click) loaded)
       = \<lparr>type = Idle, message = []\<rparr>"
    by (simp add: status_at c)
  have 5: "operationStatus (state_at 2500 (first_click @ second_click @ third_click) loaded)
     = \<lparr>type = Restarting, message = ''Stopping service...''\<rparr>"
    by (simp add: status_at changes_three_clicks)
  show ?thesis
    using 1 3 4 5 by (simp add: slow_fields ok_def before_third)
qed

end
